theory Spec2Isabelle
  imports Complex_Main
begin

section \<open>JavaScript values used by the bot\<close>

text \<open>
  A JavaScript string is a sequence of UTF-16 code units; \<open>.length\<close>, \<open>.substring\<close> and
  \<open>.slice\<close> count code units. A string is modelled as the list of its code units, each a
  natural number. \<open>lit\<close> embeds an ASCII literal; the emoji of the message texts are given
  by their code units.
\<close>

type_synonym jsstring = "nat list"

definition lit :: "string \<Rightarrow> jsstring" where
  "lit s = map of_char s"

text \<open>Decimal digits of a natural number, most significant first (code unit 48 is \<open>0\<close>).\<close>

fun digitsOf :: "nat \<Rightarrow> jsstring" where
  "digitsOf n = (if n < 10 then [48 + n] else digitsOf (n div 10) @ [48 + n mod 10])"

declare digitsOf.simps [simp del]

text \<open>\<open>Number.prototype.toString\<close> on an integer (code unit 45 is the minus sign).\<close>

definition toString :: "int \<Rightarrow> jsstring" where
  "toString i = (if i < 0 then 45 # digitsOf (nat (- i)) else digitsOf (nat i))"

text \<open>The value a string of decimal digits denotes.\<close>

definition decimal_value :: "jsstring \<Rightarrow> nat" where
  "decimal_value s = foldl (\<lambda>a d. 10 * a + (d - 48)) 0 s"

text \<open>
  \<open>x.toFixed(1)\<close> for \<open>x \<ge> 0\<close>: the integer \<open>n\<close> with \<open>n / 10\<close> nearest to \<open>x\<close>, the larger one
  on a tie, printed with one digit after the point.  The argument is the exact quotient:
  a byte count below \<open>2^53\<close> divided by a power of two is exact in a double.
\<close>

definition toFixed1 :: "rat \<Rightarrow> jsstring" where
  "toFixed1 x =
     (let n = nat \<lfloor>x * 10 + 1 / 2\<rfloor>
      in digitsOf (n div 10) @ lit ''.'' @ digitsOf (n mod 10))"

text \<open>\<open>a || d\<close> on an optional string: \<open>undefined\<close> and the empty string are falsy.\<close>

definition or_str :: "jsstring option \<Rightarrow> jsstring \<Rightarrow> jsstring" where
  "or_str a d = (case a of None \<Rightarrow> d | Some s \<Rightarrow> if s = [] then d else s)"

text \<open>\<open>n || d\<close> on an optional number: \<open>undefined\<close> and \<open>0\<close> are falsy.\<close>

definition or_number :: "nat option \<Rightarrow> nat \<Rightarrow> nat" where
  "or_number a d = (case a of None \<Rightarrow> d | Some n \<Rightarrow> if n = 0 then d else n)"

text \<open>\<open>parts.join(sep)\<close>.\<close>

fun join :: "jsstring \<Rightarrow> jsstring list \<Rightarrow> jsstring" where
  "join sep [] = []"
| "join sep [x] = x"
| "join sep (x # y # ys) = x @ sep @ join sep (y # ys)"

text \<open>The emoji of the message texts.\<close>

definition cross_mark :: jsstring where "cross_mark = [0x274C]"
definition check_mark :: jsstring where "check_mark = [0x2705]"
definition outbox_tray :: jsstring where "outbox_tray = [0xD83D, 0xDCE4]"
definition page_facing_up :: jsstring where "page_facing_up = [0xD83D, 0xDCC4]"
definition package :: jsstring where "package = [0xD83D, 0xDCE6]"
definition link_symbol :: jsstring where "link_symbol = [0xD83D, 0xDD17]"
definition wastebasket :: jsstring where "wastebasket = [0xD83D, 0xDDD1]"
definition mailbox_empty :: jsstring where "mailbox_empty = [0xD83D, 0xDCED]"
definition camera_flash :: jsstring where "camera_flash = [0xD83D, 0xDCF8]"
definition clapper_board :: jsstring where "clapper_board = [0xD83C, 0xDFAC]"
definition musical_note :: jsstring where "musical_note = [0xD83C, 0xDFB5]"
definition microphone :: jsstring where "microphone = [0xD83C, 0xDFA4]"
definition mobile_phone :: jsstring where "mobile_phone = [0xD83D, 0xDCF1]"

section \<open>Update deduplicator (bot.ts, \<open>isProcessed\<close>)\<close>

text \<open>
  \<open>processedUpdates\<close> is a JavaScript \<open>Set<number>\<close>, which keeps its elements in insertion
  order and holds each at most once. It is modelled as the list of its elements in
  insertion order; \<open>set_add\<close> and \<open>set_delete\<close> are \<open>Set.prototype.add\<close> and
  \<open>Set.prototype.delete\<close>.
\<close>

type_synonym update_set = "int list"

definition set_has :: "update_set \<Rightarrow> int \<Rightarrow> bool" where
  "set_has s x = (x \<in> set s)"

definition set_add :: "update_set \<Rightarrow> int \<Rightarrow> update_set" where
  "set_add s x = (if x \<in> set s then s else s @ [x])"

definition set_delete :: "int \<Rightarrow> update_set \<Rightarrow> update_set" where
  "set_delete x s = filter (\<lambda>y. y \<noteq> x) s"

definition MAX_PROCESSED_UPDATES :: nat where
  "MAX_PROCESSED_UPDATES = 1000"

text \<open>
  \<open>isProcessed\<close> returns its result together with the set as the call leaves it.
  \<open>Array.from(processedUpdates).slice(0, 500)\<close> is \<open>take 500\<close>; the \<open>forEach\<close> deletes
  each of these from the set.
\<close>

definition isProcessed :: "int \<Rightarrow> update_set \<Rightarrow> bool \<times> update_set" where
  "isProcessed updateId processedUpdates =
     (if set_has processedUpdates updateId then (True, processedUpdates)
      else
        let cleaned =
              (if length processedUpdates \<ge> MAX_PROCESSED_UPDATES
               then fold set_delete (take 500 processedUpdates) processedUpdates
               else processedUpdates)
        in (False, set_add cleaned updateId))"

text \<open>The set after a sequence of calls, starting from the empty set.\<close>

definition processed_after :: "int list \<Rightarrow> update_set" where
  "processed_after ids = foldl (\<lambda>s u. snd (isProcessed u s)) [] ids"

section \<open>Presentation formatter (bot.ts, \<open>formatFileSize\<close>)\<close>

definition formatFileSize :: "nat \<Rightarrow> jsstring" where
  "formatFileSize bytes =
     (if bytes < 1024 then digitsOf bytes @ lit '' B''
      else if bytes < 1024 * 1024 then toFixed1 (of_nat bytes / 1024) @ lit '' KB''
      else toFixed1 (of_nat bytes / (1024 * 1024)) @ lit '' MB'')"

section \<open>Storage API client (services/cloudStorageApi.ts)\<close>

subsection \<open>Errors\<close>

record ApiErrorResponse =
  status :: jsstring
  message :: jsstring
  error :: "jsstring option"

text \<open>
  What a promise can reject with. \<open>CloudStorageApiError\<close> carries \<open>message\<close>,
  \<open>statusCode\<close> and the optional \<open>response\<close>; the handlers tell it from every other error
  by \<open>instanceof\<close>.
\<close>

datatype js_error =
    CloudStorageApiError jsstring nat "ApiErrorResponse option"
  | Error jsstring \<comment> \<open>\<open>new Error(msg)\<close> thrown by the bot's own code\<close>
  | FetchFailed \<comment> \<open>\<open>fetch\<close> or \<open>axios.post\<close> rejected: no HTTP response\<close>
  | JsonSyntaxError \<comment> \<open>\<open>response.json()\<close> rejected: the body is not JSON\<close>
  | TelegramApiError \<comment> \<open>\<open>bot.api.getFile\<close> rejected\<close>

subsection \<open>Response bodies\<close>

text \<open>
  Every success body is \<open>{status, message, data}\<close>; the operations differ in \<open>data\<close>.
\<close>

record 'd ApiResponse =
  resp_status :: jsstring
  resp_message :: jsstring
  data :: 'd

record UserResponse =
  user_id :: jsstring
  user_telegramId :: jsstring
  user_phoneNumber :: "jsstring option"
  user_name :: jsstring
  user_profilePic :: "jsstring option"
  user_isPhoneVerified :: bool
  user_createdAt :: jsstring

record CreateUserData =
  cu_user :: UserResponse
  cu_token :: jsstring
  cu_isNewUser :: bool

record UploadFileData =
  uf_fsObjectId :: jsstring
  uf_filename :: jsstring
  uf_size :: nat
  uf_sourceType :: jsstring

record UpdatePhoneUser =
  up_id :: jsstring
  up_telegramId :: jsstring
  up_phoneNumber :: jsstring
  up_name :: jsstring
  up_isPhoneVerified :: bool

record UpdatePhoneData =
  up_user :: UpdatePhoneUser

record SharedFile =
  sf_fsObjectId :: jsstring
  sf_filename :: jsstring
  sf_size :: nat
  sf_sourceType :: jsstring
  sf_createdAt :: jsstring
  sf_shareCreatedAt :: jsstring

record ListSharedFilesData =
  files :: "SharedFile list"

record DeleteShareLinkData =
  dl_fsObjectId :: jsstring
  dl_filename :: jsstring

record LinkWithViews =
  lv_fsObjectId :: jsstring
  lv_filename :: jsstring
  lv_size :: nat
  lv_sourceType :: jsstring
  lv_viewCount :: nat
  lv_shareableLink :: jsstring
  lv_createdAt :: jsstring
  lv_shareCreatedAt :: jsstring
  lv_expiresAt :: "jsstring option"

record Pagination =
  page :: nat
  limit :: nat
  total :: nat
  totalPages :: nat

record GetLinksWithViewsData =
  links :: "LinkWithViews list"
  pagination :: Pagination

record DeleteAccountData =
  deleted :: bool

record GetUploadUrlData =
  gu_fsObjectId :: jsstring
  uploadUrl :: jsstring
  s3Key :: jsstring

record CompleteUploadData =
  co_fsObjectId :: jsstring
  co_filename :: jsstring
  co_size :: nat
  co_sourceType :: jsstring
  co_shareableLink :: jsstring

record GenerateShareLinkData =
  gs_shareableLink :: jsstring
  gs_filename :: jsstring
  gs_fileSize :: nat
  gs_expiresAt :: "jsstring option"

subsection \<open>What the network answers\<close>

text \<open>
  The HTTP response that \<open>request\<close> gets from \<open>fetch\<close>. \<open>request\<close> reads the parsed body as
  \<open>T\<close> when \<open>response.ok\<close> and as \<open>ApiErrorResponse\<close> otherwise, so the body is typed by
  \<open>ok\<close>: \<open>HttpOk\<close> is a response with \<open>ok\<close>, \<open>HttpNotOk st\<close> one without, of status \<open>st\<close>.
  The body is \<open>None\<close> when it is not JSON, that is when \<open>response.json()\<close> rejects.
\<close>

datatype 'a http_response =
    HttpOk "'a option"
  | HttpNotOk nat "ApiErrorResponse option"

text \<open>An outcome of \<open>fetch\<close>: \<open>None\<close> when the promise rejects (no response at all).\<close>

type_synonym 'a fetched = "'a http_response option"

text \<open>
  The outcome of \<open>axios.post\<close> in \<open>uploadFile\<close>: the response data, an error that has a
  \<open>response\<close> (status and data), or an error without one.
\<close>

datatype axios_result =
    AxiosOk "UploadFileData ApiResponse"
  | AxiosResponseError nat ApiErrorResponse
  | AxiosNoResponse

text \<open>The response to the \<open>PUT\<close> of \<open>uploadToS3\<close>: \<open>ok\<close> and \<open>status\<close>.\<close>

record PutResponse =
  put_ok :: bool
  put_status :: nat

type_synonym buffer = "nat list"

text \<open>The response to the download of the file from Telegram.\<close>

record FileResponse =
  file_ok :: bool
  file_statusText :: jsstring
  file_bytes :: buffer

text \<open>
  The world a handler runs in: what each external call answers during the run (a handler
  issues each call at most once), the bot token, the clock and the id of the status
  message that \<open>ctx.reply\<close> returns. Sending a message is taken to succeed.
\<close>

record world =
  createUser_answer :: "CreateUserData ApiResponse fetched"
  uploadFile_answer :: axios_result
  generateShareLink_answer :: "GenerateShareLinkData ApiResponse fetched"
  updatePhone_answer :: "UpdatePhoneData ApiResponse fetched"
  listSharedFiles_answer :: "ListSharedFilesData ApiResponse fetched"
  deleteShareLink_answer :: "DeleteShareLinkData ApiResponse fetched"
  getLinksWithViews_answer :: "GetLinksWithViewsData ApiResponse fetched"
  deleteAccount_answer :: "DeleteAccountData ApiResponse fetched"
  getUploadUrl_answer :: "GetUploadUrlData ApiResponse fetched"
  completeUpload_answer :: "CompleteUploadData ApiResponse fetched"
  s3_answer :: "PutResponse option"
  getFile_answer :: "jsstring option option"
  download_answer :: "FileResponse option"
  token :: jsstring
  now :: nat
  status_message_id :: int

subsection \<open>Effects\<close>

text \<open>The backend operations, with the payload each sends.\<close>

datatype backend_call =
    CreateUser jsstring "jsstring option"
  | UploadFile jsstring jsstring jsstring buffer
  | GenerateShareLink jsstring jsstring
  | UpdatePhone jsstring jsstring
  | ListSharedFiles jsstring
  | DeleteShareLink jsstring jsstring
  | GetLinksWithViews jsstring "nat option" "nat option"
  | DeleteAccount jsstring
  | GetUploadUrl jsstring jsstring jsstring nat
  | CompleteUpload jsstring jsstring

text \<open>An inline keyboard button (label and callback data) and the reply markups used.\<close>

type_synonym button = "jsstring \<times> jsstring"

datatype markup =
    NoMarkup
  | RemoveKeyboard
  | Inline "button list list"

text \<open>
  Everything a handler does to the outside, in the order it does it: calls to the
  backend, to the Telegram file API, to object storage, messages to the user and
  console output.
\<close>

datatype event =
    Backend backend_call
  | TelegramGetFile jsstring \<comment> \<open>\<open>bot.api.getFile(fileId)\<close>\<close>
  | TelegramDownload jsstring \<comment> \<open>\<open>fetch(fileUrl)\<close>\<close>
  | S3Put jsstring buffer jsstring \<comment> \<open>\<open>PUT\<close> of the bytes: url, body, content type\<close>
  | Reply jsstring markup \<comment> \<open>\<open>ctx.reply\<close>\<close>
  | EditMessageText jsstring \<comment> \<open>\<open>ctx.editMessageText\<close>\<close>
  | ApiEditMessageText int int jsstring \<comment> \<open>\<open>ctx.api.editMessageText(chat, message, text)\<close>\<close>
  | AnswerCallbackQuery "jsstring option" bool \<comment> \<open>text and \<open>show_alert\<close>\<close>
  | ConsoleLog jsstring
  | ConsoleError jsstring js_error

text \<open>
  An asynchronous computation: the events it has caused and either the error it rejects
  with or its value. \<open>bind_io\<close> is \<open>await\<close> followed by the rest of the function: an error
  ends the sequence. \<open>catch_io\<close> is \<open>try { ... } catch (error) { ... }\<close>.
\<close>

type_synonym 'a io = "event list \<times> (js_error + 'a)"

definition return_io :: "'a \<Rightarrow> 'a io" where
  "return_io x = ([], Inr x)"

definition throw_io :: "js_error \<Rightarrow> 'a io" where
  "throw_io e = ([], Inl e)"

definition emit :: "event \<Rightarrow> unit io" where
  "emit ev = ([ev], Inr ())"

definition bind_io :: "'a io \<Rightarrow> ('a \<Rightarrow> 'b io) \<Rightarrow> 'b io" where
  "bind_io m f =
     (case m of
        (t, Inl e) \<Rightarrow> (t, Inl e)
      | (t, Inr x) \<Rightarrow> (case f x of (t', r) \<Rightarrow> (t @ t', r)))"

definition catch_io :: "'a io \<Rightarrow> (js_error \<Rightarrow> 'a io) \<Rightarrow> 'a io" where
  "catch_io m h =
     (case m of
        (t, Inl e) \<Rightarrow> (case h e of (t', r) \<Rightarrow> (t @ t', r))
      | (t, Inr x) \<Rightarrow> (t, Inr x))"

subsection \<open>The client\<close>

text \<open>
  \<open>request\<close>, given what \<open>fetch\<close> answers: the body is parsed first, then \<open>response.ok\<close> is
  tested.
\<close>

definition request :: "'a fetched \<Rightarrow> js_error + 'a" where
  "request fetched =
     (case fetched of
        None \<Rightarrow> Inl FetchFailed
      | Some (HttpOk None) \<Rightarrow> Inl JsonSyntaxError
      | Some (HttpNotOk st None) \<Rightarrow> Inl JsonSyntaxError
      | Some (HttpNotOk st (Some errorData)) \<Rightarrow>
          Inl (CloudStorageApiError
                 (or_str (Some (message errorData))
                    (or_str (error errorData) (lit ''API request failed'')))
                 st (Some errorData))
      | Some (HttpOk (Some d)) \<Rightarrow> Inr d)"

text \<open>An operation that posts a payload through \<open>request\<close>.\<close>

definition post :: "backend_call \<Rightarrow> 'a fetched \<Rightarrow> 'a io" where
  "post c fetched = ([Backend c], request fetched)"

definition createUser :: "world \<Rightarrow> jsstring \<Rightarrow> jsstring option \<Rightarrow> CreateUserData ApiResponse io" where
  "createUser w telegramId name = post (CreateUser telegramId name) (createUser_answer w)"

definition uploadFile ::
  "world \<Rightarrow> jsstring \<Rightarrow> jsstring \<Rightarrow> jsstring \<Rightarrow> buffer \<Rightarrow> UploadFileData ApiResponse io" where
  "uploadFile w telegramId filename contentType fileBuffer =
     ([Backend (UploadFile telegramId filename contentType fileBuffer)],
      (case uploadFile_answer w of
         AxiosOk d \<Rightarrow> Inr d
       | AxiosResponseError st errorData \<Rightarrow>
           Inl (CloudStorageApiError
                  (or_str (Some (message errorData))
                     (or_str (error errorData) (lit ''Upload failed'')))
                  st (Some errorData))
       | AxiosNoResponse \<Rightarrow> Inl FetchFailed))"

definition generateShareLink ::
  "world \<Rightarrow> jsstring \<Rightarrow> jsstring \<Rightarrow> GenerateShareLinkData ApiResponse io" where
  "generateShareLink w telegramId fsObjectId =
     post (GenerateShareLink telegramId fsObjectId) (generateShareLink_answer w)"

definition updatePhone :: "world \<Rightarrow> jsstring \<Rightarrow> jsstring \<Rightarrow> UpdatePhoneData ApiResponse io" where
  "updatePhone w telegramId phoneNumber =
     post (UpdatePhone telegramId phoneNumber) (updatePhone_answer w)"

definition listSharedFiles :: "world \<Rightarrow> jsstring \<Rightarrow> ListSharedFilesData ApiResponse io" where
  "listSharedFiles w telegramId = post (ListSharedFiles telegramId) (listSharedFiles_answer w)"

definition deleteShareLink ::
  "world \<Rightarrow> jsstring \<Rightarrow> jsstring \<Rightarrow> DeleteShareLinkData ApiResponse io" where
  "deleteShareLink w telegramId fsObjectId =
     post (DeleteShareLink telegramId fsObjectId) (deleteShareLink_answer w)"

definition getLinksWithViews ::
  "world \<Rightarrow> jsstring \<Rightarrow> nat option \<Rightarrow> nat option \<Rightarrow> GetLinksWithViewsData ApiResponse io" where
  "getLinksWithViews w telegramId pageNo pageSize =
     post (GetLinksWithViews telegramId pageNo pageSize) (getLinksWithViews_answer w)"

definition deleteAccount :: "world \<Rightarrow> jsstring \<Rightarrow> DeleteAccountData ApiResponse io" where
  "deleteAccount w telegramId = post (DeleteAccount telegramId) (deleteAccount_answer w)"

definition getUploadUrl ::
  "world \<Rightarrow> jsstring \<Rightarrow> jsstring \<Rightarrow> jsstring \<Rightarrow> nat \<Rightarrow> GetUploadUrlData ApiResponse io" where
  "getUploadUrl w telegramId filename contentType fileSize =
     post (GetUploadUrl telegramId filename contentType fileSize) (getUploadUrl_answer w)"

definition completeUpload ::
  "world \<Rightarrow> jsstring \<Rightarrow> jsstring \<Rightarrow> CompleteUploadData ApiResponse io" where
  "completeUpload w telegramId fsObjectId =
     post (CompleteUpload telegramId fsObjectId) (completeUpload_answer w)"

definition uploadToS3 :: "world \<Rightarrow> jsstring \<Rightarrow> buffer \<Rightarrow> jsstring \<Rightarrow> unit io" where
  "uploadToS3 w url fileBuffer contentType =
     ([S3Put url fileBuffer contentType],
      (case s3_answer w of
         None \<Rightarrow> Inl FetchFailed
       | Some response \<Rightarrow>
           if \<not> put_ok response
           then Inl (CloudStorageApiError (lit ''Failed to upload to S3'') (put_status response) None)
           else Inr ()))"

section \<open>The bot (bot.ts)\<close>

subsection \<open>Helpers\<close>

definition nl :: jsstring where "nl = [10]"
definition dquote :: jsstring where "dquote = [34]"
definition apostrophe :: jsstring where "apostrophe = [39]"

record User =
  tg_id :: int \<comment> \<open>\<open>from.id\<close>\<close>
  first_name :: jsstring
  last_name :: "jsstring option"
  username :: "jsstring option"

definition getUserDisplayName :: "User \<Rightarrow> jsstring" where
  "getUserDisplayName u =
     (case last_name u of
        Some l \<Rightarrow>
          if first_name u \<noteq> [] \<and> l \<noteq> [] then first_name u @ lit '' '' @ l
          else or_str (Some (first_name u)) (or_str (username u) (lit ''User''))
      | None \<Rightarrow> or_str (Some (first_name u)) (or_str (username u) (lit ''User'')))"

definition downloadTelegramFile :: "world \<Rightarrow> jsstring \<Rightarrow> buffer io" where
  "downloadTelegramFile w fileId =
     bind_io
       ([TelegramGetFile fileId],
        (case getFile_answer w of None \<Rightarrow> Inl TelegramApiError | Some filePath \<Rightarrow> Inr filePath))
       (\<lambda>filePath.
          if or_str filePath [] = []
          then throw_io (Error (lit ''Could not get file path from Telegram''))
          else
            let fileUrl =
                  lit ''https://api.telegram.org/file/bot'' @ token w @ lit ''/'' @ or_str filePath []
            in bind_io
                 ([TelegramDownload fileUrl],
                  (case download_answer w of None \<Rightarrow> Inl FetchFailed | Some response \<Rightarrow> Inr response))
                 (\<lambda>response.
                    if \<not> file_ok response
                    then throw_io (Error (lit ''Failed to download file: '' @ file_statusText response))
                    else return_io (file_bytes response)))"

subsection \<open>Direct upload orchestrator\<close>

record UploadResult =
  res_shareableLink :: jsstring
  res_filename :: jsstring
  res_size :: nat

definition fastUploadFile ::
  "world \<Rightarrow> jsstring \<Rightarrow> jsstring \<Rightarrow> jsstring \<Rightarrow> jsstring \<Rightarrow> nat \<Rightarrow> UploadResult io" where
  "fastUploadFile w telegramId fileId filename contentType fileSize =
     bind_io (getUploadUrl w telegramId filename contentType fileSize) (\<lambda>urlResponse.
     bind_io (downloadTelegramFile w fileId) (\<lambda>fileBuffer.
     bind_io (uploadToS3 w (uploadUrl (data urlResponse)) fileBuffer contentType) (\<lambda>_.
     bind_io (completeUpload w telegramId (gu_fsObjectId (data urlResponse))) (\<lambda>completeResponse.
     return_io
       \<lparr>res_shareableLink = co_shareableLink (data completeResponse),
        res_filename = co_filename (data completeResponse),
        res_size = co_size (data completeResponse)\<rparr>))))"

subsection \<open>User session resolver\<close>

definition ensureUserRegistered :: "world \<Rightarrow> jsstring \<Rightarrow> jsstring option \<Rightarrow> bool io" where
  "ensureUserRegistered w telegramId userName =
     catch_io
       (bind_io (createUser w telegramId userName) (\<lambda>_. return_io True))
       (\<lambda>err.
          bind_io (emit (ConsoleError (lit ''Error ensuring user registration:'') err)) (\<lambda>_.
          return_io False))"

subsection \<open>Inbound events\<close>

text \<open>
  What a handler reads of its context: \<open>ctx.update.update_id\<close>, \<open>ctx.from\<close> and
  \<open>ctx.chat.id\<close>. The part of the message that the handler is registered for is passed
  beside it.
\<close>

record Context =
  update_id :: int
  from_user :: "User option"
  chat_id :: int

record Document =
  doc_file_id :: jsstring
  doc_file_name :: "jsstring option"
  doc_mime_type :: "jsstring option"
  doc_file_size :: "nat option"

record PhotoSize =
  photo_file_id :: jsstring
  photo_file_size :: "nat option"

record Video =
  video_file_id :: jsstring
  video_file_name :: "jsstring option"
  video_mime_type :: "jsstring option"
  video_file_size :: "nat option"

record Audio =
  audio_file_id :: jsstring
  audio_file_name :: "jsstring option"
  audio_mime_type :: "jsstring option"
  audio_file_size :: "nat option"

record Voice =
  voice_file_id :: jsstring
  voice_mime_type :: "jsstring option"
  voice_file_size :: "nat option"

record Contact =
  phone_number :: jsstring
  contact_user_id :: "int option"

subsection \<open>Message texts\<close>

definition could_not_identify :: jsstring where
  "could_not_identify = lit ''Could not identify your account. Please try again.''"

definition file_too_large :: jsstring where
  "file_too_large =
     cross_mark @ lit '' File too large!'' @ nl @ nl @
     lit ''Maximum file size is 20MB.'' @ nl @
     lit ''Please use a smaller file or compress it first.''"

definition video_too_large :: jsstring where
  "video_too_large =
     cross_mark @ lit '' Video too large!'' @ nl @ nl @
     lit ''Maximum file size is 20MB.'' @ nl @
     lit ''Please use a smaller video or compress it first.''"

definition audio_too_large :: jsstring where
  "audio_too_large =
     cross_mark @ lit '' Audio file too large!'' @ nl @ nl @
     lit ''Maximum file size is 20MB.''"

definition size_line :: "nat \<Rightarrow> jsstring" where
  "size_line fileSize = lit ''Size: '' @ formatFileSize fileSize"

definition link_lines :: "UploadResult \<Rightarrow> jsstring" where
  "link_lines result =
     link_symbol @ lit '' Shareable Link:'' @ nl @ res_shareableLink result"

definition upload_failed :: "jsstring \<Rightarrow> jsstring" where
  "upload_failed errorMessage =
     cross_mark @ lit '' Upload failed!'' @ nl @ nl @ errorMessage @ nl @ nl @
     lit ''Please try again.''"

definition duplicate_log :: "int \<Rightarrow> jsstring" where
  "duplicate_log updateId = lit ''Skipping duplicate update: '' @ toString updateId"

definition contact_rejected :: jsstring where
  "contact_rejected =
     cross_mark @ lit '' Please share your own phone number, not someone else'' @ apostrophe @
     lit ''s contact.''"

text \<open>
  \<open>let errorMessage = d; if (error instanceof CloudStorageApiError) errorMessage =
  error.message\<close>.
\<close>

definition error_text :: "jsstring \<Rightarrow> js_error \<Rightarrow> jsstring" where
  "error_text d err = (case err of CloudStorageApiError m _ _ \<Rightarrow> m | _ \<Rightarrow> d)"

subsection \<open>Upload handlers\<close>

text \<open>
  The five media handlers end in the same block, which differs only in its texts: the
  status reply, then registration and upload inside \<open>try\<close>, the status message edited to
  the result, and in \<open>catch\<close> the error logged and the status message edited to the
  failure.
\<close>

definition upload_flow ::
  "world \<Rightarrow> int \<Rightarrow> jsstring \<Rightarrow> jsstring option \<Rightarrow> jsstring \<Rightarrow> jsstring \<Rightarrow> jsstring \<Rightarrow> nat \<Rightarrow>
   jsstring \<Rightarrow> (UploadResult \<Rightarrow> jsstring) \<Rightarrow> jsstring \<Rightarrow> jsstring \<Rightarrow> event list" where
  "upload_flow w chat telegramId userName fileId fileName mimeType fileSize
     uploadingText successText logLabel defaultError =
     Reply uploadingText NoMarkup #
     fst (catch_io
       (bind_io (ensureUserRegistered w telegramId userName) (\<lambda>_.
        bind_io (fastUploadFile w telegramId fileId fileName mimeType fileSize) (\<lambda>result.
        emit (ApiEditMessageText chat (status_message_id w) (successText result)))))
       (\<lambda>err.
          bind_io (emit (ConsoleError logLabel err)) (\<lambda>_.
          emit (ApiEditMessageText chat (status_message_id w)
                  (upload_failed (error_text defaultError err))))))"

definition on_document :: "world \<Rightarrow> Context \<Rightarrow> Document \<Rightarrow> update_set \<Rightarrow> update_set \<times> event list" where
  "on_document w ctx document processedUpdates =
     (case isProcessed (update_id ctx) processedUpdates of
        (True, s) \<Rightarrow> (s, [ConsoleLog (duplicate_log (update_id ctx))])
      | (False, s) \<Rightarrow>
          (s,
           (case from_user ctx of
              None \<Rightarrow> [Reply could_not_identify NoMarkup]
            | Some u \<Rightarrow>
                let telegramId = toString (tg_id u);
                    fileName = or_str (doc_file_name document) (lit ''unnamed_file'');
                    mimeType = or_str (doc_mime_type document) (lit ''application/octet-stream'');
                    fileSize = or_number (doc_file_size document) 0
                in if fileSize > 20 * 1024 * 1024 then [Reply file_too_large NoMarkup]
                   else
                     upload_flow w (chat_id ctx) telegramId (Some (getUserDisplayName u))
                       (doc_file_id document) fileName mimeType fileSize
                       (outbox_tray @ lit '' Uploading '' @ dquote @ fileName @ dquote @ lit ''...'' @ nl @
                        size_line fileSize)
                       (\<lambda>result.
                          check_mark @ lit '' Upload complete!'' @ nl @ nl @
                          page_facing_up @ lit '' File: '' @ res_filename result @ nl @
                          package @ lit '' Size: '' @ formatFileSize (res_size result) @ nl @ nl @
                          link_lines result)
                       (lit ''Error uploading document:'') (lit ''Failed to upload file.''))))"

definition on_photo ::
  "world \<Rightarrow> Context \<Rightarrow> PhotoSize list \<Rightarrow> update_set \<Rightarrow> update_set \<times> event list" where
  "on_photo w ctx photos processedUpdates =
     (case isProcessed (update_id ctx) processedUpdates of
        (True, s) \<Rightarrow> (s, [ConsoleLog (duplicate_log (update_id ctx))])
      | (False, s) \<Rightarrow>
          (s,
           (case from_user ctx of
              None \<Rightarrow> [Reply could_not_identify NoMarkup]
            | Some u \<Rightarrow>
                if photos = []
                then [Reply (lit ''Could not process this photo. Please try again.'') NoMarkup]
                else
                  let telegramId = toString (tg_id u);
                      photo = last photos;
                      fileSize = or_number (photo_file_size photo) 0;
                      fileName = lit ''photo_'' @ digitsOf (now w) @ lit ''.jpg''
                  in upload_flow w (chat_id ctx) telegramId (Some (getUserDisplayName u))
                       (photo_file_id photo) fileName (lit ''image/jpeg'') fileSize
                       (outbox_tray @ lit '' Uploading photo...'' @ nl @ size_line fileSize)
                       (\<lambda>result.
                          check_mark @ lit '' Photo uploaded!'' @ nl @ nl @
                          camera_flash @ lit '' Size: '' @ formatFileSize (res_size result) @ nl @ nl @
                          link_lines result)
                       (lit ''Error uploading photo:'') (lit ''Failed to upload photo.''))))"

definition on_video :: "world \<Rightarrow> Context \<Rightarrow> Video \<Rightarrow> update_set \<Rightarrow> update_set \<times> event list" where
  "on_video w ctx video processedUpdates =
     (case isProcessed (update_id ctx) processedUpdates of
        (True, s) \<Rightarrow> (s, [ConsoleLog (duplicate_log (update_id ctx))])
      | (False, s) \<Rightarrow>
          (s,
           (case from_user ctx of
              None \<Rightarrow> [Reply could_not_identify NoMarkup]
            | Some u \<Rightarrow>
                let telegramId = toString (tg_id u);
                    fileName =
                      or_str (video_file_name video) (lit ''video_'' @ digitsOf (now w) @ lit ''.mp4'');
                    mimeType = or_str (video_mime_type video) (lit ''video/mp4'');
                    fileSize = or_number (video_file_size video) 0
                in if fileSize > 20 * 1024 * 1024 then [Reply video_too_large NoMarkup]
                   else
                     upload_flow w (chat_id ctx) telegramId (Some (getUserDisplayName u))
                       (video_file_id video) fileName mimeType fileSize
                       (outbox_tray @ lit '' Uploading video '' @ dquote @ fileName @ dquote @
                        lit ''...'' @ nl @ size_line fileSize)
                       (\<lambda>result.
                          check_mark @ lit '' Video uploaded!'' @ nl @ nl @
                          clapper_board @ lit '' File: '' @ res_filename result @ nl @
                          package @ lit '' Size: '' @ formatFileSize (res_size result) @ nl @ nl @
                          link_lines result)
                       (lit ''Error uploading video:'') (lit ''Failed to upload video.''))))"

definition on_audio :: "world \<Rightarrow> Context \<Rightarrow> Audio \<Rightarrow> update_set \<Rightarrow> update_set \<times> event list" where
  "on_audio w ctx audio processedUpdates =
     (case isProcessed (update_id ctx) processedUpdates of
        (True, s) \<Rightarrow> (s, [ConsoleLog (duplicate_log (update_id ctx))])
      | (False, s) \<Rightarrow>
          (s,
           (case from_user ctx of
              None \<Rightarrow> [Reply could_not_identify NoMarkup]
            | Some u \<Rightarrow>
                let telegramId = toString (tg_id u);
                    fileName =
                      or_str (audio_file_name audio) (lit ''audio_'' @ digitsOf (now w) @ lit ''.mp3'');
                    mimeType = or_str (audio_mime_type audio) (lit ''audio/mpeg'');
                    fileSize = or_number (audio_file_size audio) 0
                in if fileSize > 20 * 1024 * 1024 then [Reply audio_too_large NoMarkup]
                   else
                     upload_flow w (chat_id ctx) telegramId (Some (getUserDisplayName u))
                       (audio_file_id audio) fileName mimeType fileSize
                       (outbox_tray @ lit '' Uploading audio '' @ dquote @ fileName @ dquote @
                        lit ''...'' @ nl @ size_line fileSize)
                       (\<lambda>result.
                          check_mark @ lit '' Audio uploaded!'' @ nl @ nl @
                          musical_note @ lit '' File: '' @ res_filename result @ nl @
                          package @ lit '' Size: '' @ formatFileSize (res_size result) @ nl @ nl @
                          link_lines result)
                       (lit ''Error uploading audio:'') (lit ''Failed to upload audio.''))))"

definition on_voice :: "world \<Rightarrow> Context \<Rightarrow> Voice \<Rightarrow> update_set \<Rightarrow> update_set \<times> event list" where
  "on_voice w ctx voice processedUpdates =
     (case isProcessed (update_id ctx) processedUpdates of
        (True, s) \<Rightarrow> (s, [ConsoleLog (duplicate_log (update_id ctx))])
      | (False, s) \<Rightarrow>
          (s,
           (case from_user ctx of
              None \<Rightarrow> [Reply could_not_identify NoMarkup]
            | Some u \<Rightarrow>
                let telegramId = toString (tg_id u);
                    fileName = lit ''voice_'' @ digitsOf (now w) @ lit ''.ogg'';
                    mimeType = or_str (voice_mime_type voice) (lit ''audio/ogg'');
                    fileSize = or_number (voice_file_size voice) 0
                in upload_flow w (chat_id ctx) telegramId (Some (getUserDisplayName u))
                     (voice_file_id voice) fileName mimeType fileSize
                     (outbox_tray @ lit '' Uploading voice message...'' @ nl @ size_line fileSize)
                     (\<lambda>result.
                        check_mark @ lit '' Voice message uploaded!'' @ nl @ nl @
                        microphone @ lit '' Size: '' @ formatFileSize (res_size result) @ nl @ nl @
                        link_lines result)
                     (lit ''Error uploading voice:'') (lit ''Failed to upload voice message.''))))"

subsection \<open>Phone verification\<close>

text \<open>
  \<open>contact.user_id?.toString() !== telegramId\<close> compares an optional string with a string.
  The handler does not consult \<open>isProcessed\<close>.
\<close>

definition on_contact :: "world \<Rightarrow> Context \<Rightarrow> Contact \<Rightarrow> event list" where
  "on_contact w ctx contact =
     (case from_user ctx of
        None \<Rightarrow> [Reply could_not_identify NoMarkup]
      | Some u \<Rightarrow>
          let telegramId = toString (tg_id u) in
          if map_option toString (contact_user_id contact) \<noteq> Some telegramId
          then [Reply contact_rejected RemoveKeyboard]
          else
            let phoneNumber = phone_number contact;
                formattedPhone =
                  (if take 1 phoneNumber = lit ''+'' then phoneNumber else lit ''+'' @ phoneNumber)
            in fst (catch_io
                 (bind_io (updatePhone w telegramId formattedPhone) (\<lambda>response.
                  emit (Reply
                    (check_mark @ lit '' Phone number verified successfully!'' @ nl @ nl @
                     mobile_phone @ lit '' Phone: '' @ up_phoneNumber (up_user (data response)) @ nl @ nl @
                     lit ''Your account is now fully verified.'')
                    RemoveKeyboard)))
                 (\<lambda>err.
                    bind_io (emit (ConsoleError (lit ''Error updating phone:'') err)) (\<lambda>_.
                    emit (Reply
                      (cross_mark @ lit '' '' @ error_text (lit ''Failed to verify phone number.'') err @
                       nl @ nl @ lit ''Please try again later.'')
                      RemoveKeyboard)))))"

subsection \<open>Delete-account confirmation\<close>

text \<open>The handler of the \<open>confirm_delete_account\<close> button. It does not consult \<open>isProcessed\<close>.\<close>

definition on_confirm_delete_account :: "world \<Rightarrow> Context \<Rightarrow> event list" where
  "on_confirm_delete_account w ctx =
     (case from_user ctx of
        None \<Rightarrow> [AnswerCallbackQuery (Some (lit ''Could not identify your account.'')) False]
      | Some u \<Rightarrow>
          let telegramId = toString (tg_id u) in
          fst (catch_io
            (bind_io (deleteAccount w telegramId) (\<lambda>_.
             bind_io (emit (AnswerCallbackQuery (Some (lit ''Account deleted'')) False)) (\<lambda>_.
             emit (EditMessageText
               (check_mark @ lit '' Account Deleted'' @ nl @ nl @
                lit ''Your account and all associated data have been deleted.'' @ nl @ nl @
                lit ''Thank you for using Cloud Storage Bot.'' @ nl @
                lit ''If you change your mind, use /start to create a new account.'')))))
            (\<lambda>err.
               bind_io (emit (ConsoleError (lit ''Error deleting account:'') err)) (\<lambda>_.
               emit (AnswerCallbackQuery
                 (Some (error_text (lit ''Failed to delete account.'') err)) True)))))"

subsection \<open>Delete-link flow\<close>

text \<open>
  grammY's \<open>InlineKeyboard\<close>: a list of rows, at first one empty row; \<open>text\<close> adds a button
  to the last row and \<open>row\<close> starts a new one.
\<close>

definition new_keyboard :: "button list list" where
  "new_keyboard = [[]]"

definition kb_text :: "button list list \<Rightarrow> jsstring \<Rightarrow> jsstring \<Rightarrow> button list list" where
  "kb_text kb label cb =
     (if kb = [] then kb else butlast kb @ [last kb @ [(label, cb)]])"

definition kb_row :: "button list list \<Rightarrow> button list list" where
  "kb_row kb = kb @ [[]]"

definition displayName :: "SharedFile \<Rightarrow> jsstring" where
  "displayName file =
     (if length (sf_filename file) > 25 then take 22 (sf_filename file) @ lit ''...''
      else sf_filename file)"

definition delete_button :: "SharedFile \<Rightarrow> button" where
  "delete_button file =
     (wastebasket @ lit '' '' @ displayName file, lit ''delete_link:'' @ sf_fsObjectId file)"

definition cancel_button :: button where
  "cancel_button = (cross_mark @ lit '' Cancel'', lit ''delete_link:cancel'')"

definition delete_keyboard :: "SharedFile list \<Rightarrow> button list list" where
  "delete_keyboard fs =
     kb_text
       (foldl (\<lambda>kb file. kb_row (kb_text kb (fst (delete_button file)) (snd (delete_button file))))
          new_keyboard (take 10 fs))
       (fst cancel_button) (snd cancel_button)"

definition file_line :: "nat \<times> SharedFile \<Rightarrow> jsstring" where
  "file_line p =
     digitsOf (fst p + 1) @ lit ''. '' @ sf_filename (snd p) @ lit '' ('' @
     formatFileSize (sf_size (snd p)) @ lit '')''"

definition delete_text :: "SharedFile list \<Rightarrow> jsstring" where
  "delete_text fs =
     link_symbol @ lit '' Your Shared Files'' @ nl @ nl @
     lit ''Select a file to delete its shareable link:'' @ nl @ nl @
     join nl (map file_line (enumerate 0 (take 10 fs))) @
     (if length fs > 10
      then nl @ nl @ lit ''...and '' @ digitsOf (length fs - 10) @ lit '' more''
      else [])"

definition no_shared_files :: jsstring where
  "no_shared_files =
     mailbox_empty @ lit '' No shared files found.'' @ nl @ nl @
     lit ''Upload a file first, and I'' @ apostrophe @
     lit ''ll generate a shareable link for you.''"

text \<open>The \<open>/delete_link\<close> command.\<close>

definition on_delete_link_command :: "world \<Rightarrow> Context \<Rightarrow> event list" where
  "on_delete_link_command w ctx =
     (case from_user ctx of
        None \<Rightarrow> [Reply could_not_identify NoMarkup]
      | Some u \<Rightarrow>
          let telegramId = toString (tg_id u) in
          fst (catch_io
            (bind_io (listSharedFiles w telegramId) (\<lambda>response.
               let fs = files (data response) in
               if length fs = 0 then emit (Reply no_shared_files NoMarkup)
               else emit (Reply (delete_text fs) (Inline (delete_keyboard fs)))))
            (\<lambda>err.
               bind_io (emit (ConsoleError (lit ''Error listing shared files:'') err)) (\<lambda>_.
               (case err of
                  CloudStorageApiError m _ _ \<Rightarrow>
                    emit (Reply (lit ''Failed to list shared files: '' @ m) NoMarkup)
                | _ \<Rightarrow>
                    emit (Reply (lit ''An unexpected error occurred. Please try again later.'')
                            NoMarkup))))))"

text \<open>
  The handler of the \<open>delete_link:(.+)\<close> buttons; \<open>fsObjectId\<close> is \<open>ctx.match?.[1]\<close>. It does
  not consult \<open>isProcessed\<close>.
\<close>

definition on_delete_link_query :: "world \<Rightarrow> Context \<Rightarrow> jsstring option \<Rightarrow> event list" where
  "on_delete_link_query w ctx fsObjectId =
     (case from_user ctx of
        None \<Rightarrow> [AnswerCallbackQuery (Some (lit ''Could not identify your account.'')) False]
      | Some u \<Rightarrow>
          let telegramId = toString (tg_id u) in
          if or_str fsObjectId [] = []
          then [AnswerCallbackQuery (Some (lit ''Invalid request.'')) False]
          else if or_str fsObjectId [] = lit ''cancel''
          then [AnswerCallbackQuery (Some (lit ''Cancelled'')) False,
                EditMessageText (lit ''Operation cancelled.'')]
          else
            fst (catch_io
              (bind_io (deleteShareLink w telegramId (or_str fsObjectId [])) (\<lambda>response.
               bind_io (emit (AnswerCallbackQuery (Some (lit ''Share link deleted!'')) False)) (\<lambda>_.
               emit (EditMessageText
                 (check_mark @ lit '' Share link deleted successfully!'' @ nl @ nl @
                  lit ''File: '' @ dl_filename (data response) @ nl @ nl @
                  lit ''The shareable link for this file is no longer active.'')))))
              (\<lambda>err.
                 bind_io (emit (ConsoleError (lit ''Error deleting share link:'') err)) (\<lambda>_.
                 emit (AnswerCallbackQuery
                   (Some (error_text (lit ''Failed to delete share link.'') err)) True)))))"

subsection \<open>Routing\<close>

text \<open>
  The inbound events whose handlers upload or change state on the backend, by the filter
  their handler is registered with.
\<close>

datatype inbound =
    MessageDocument Document
  | MessagePhoto "PhotoSize list"
  | MessageVideo Video
  | MessageAudio Audio
  | MessageVoice Voice
  | MessageContact Contact
  | ConfirmDeleteAccount
  | DeleteLinkQuery "jsstring option"

text \<open>
  One update handled by the bot: the handler of its kind runs on the set of processed
  updates and leaves the set and a trace of events.
\<close>

definition handle_update ::
  "world \<Rightarrow> Context \<Rightarrow> inbound \<Rightarrow> update_set \<Rightarrow> update_set \<times> event list" where
  "handle_update w ctx ev processedUpdates =
     (case ev of
        MessageDocument d \<Rightarrow> on_document w ctx d processedUpdates
      | MessagePhoto ps \<Rightarrow> on_photo w ctx ps processedUpdates
      | MessageVideo v \<Rightarrow> on_video w ctx v processedUpdates
      | MessageAudio a \<Rightarrow> on_audio w ctx a processedUpdates
      | MessageVoice v \<Rightarrow> on_voice w ctx v processedUpdates
      | MessageContact c \<Rightarrow> (processedUpdates, on_contact w ctx c)
      | ConfirmDeleteAccount \<Rightarrow> (processedUpdates, on_confirm_delete_account w ctx)
      | DeleteLinkQuery m \<Rightarrow> (processedUpdates, on_delete_link_query w ctx m))"

text \<open>The inbound events that are media uploads.\<close>

fun is_upload :: "inbound \<Rightarrow> bool" where
  "is_upload (MessageDocument _) = True"
| "is_upload (MessagePhoto _) = True"
| "is_upload (MessageVideo _) = True"
| "is_upload (MessageAudio _) = True"
| "is_upload (MessageVoice _) = True"
| "is_upload _ = False"

text \<open>The events of a trace that reach the backend, the Telegram file API or object storage.\<close>

fun is_network_call :: "event \<Rightarrow> bool" where
  "is_network_call (Backend _) = True"
| "is_network_call (TelegramGetFile _) = True"
| "is_network_call (TelegramDownload _) = True"
| "is_network_call (S3Put _ _ _) = True"
| "is_network_call _ = False"

fun is_backend_call :: "event \<Rightarrow> bool" where
  "is_backend_call (Backend _) = True"
| "is_backend_call _ = False"

text \<open>The messages of a trace that the user sees.\<close>

fun user_visible :: "event \<Rightarrow> jsstring option" where
  "user_visible (Reply t _) = Some t"
| "user_visible (EditMessageText t) = Some t"
| "user_visible (ApiEditMessageText _ _ t) = Some t"
| "user_visible (AnswerCallbackQuery t _) = t"
| "user_visible _ = None"

subsection \<open>The message of a client error\<close>

text \<open>
  \<open>errorData.message || errorData.error || d\<close> written out: the envelope's message, its
  error detail when the message is empty, the default \<open>d\<close> when both are missing or empty.
\<close>

definition envelope_message :: "ApiErrorResponse \<Rightarrow> jsstring \<Rightarrow> jsstring" where
  "envelope_message e d =
     (if message e \<noteq> [] then message e
      else case error e of None \<Rightarrow> d | Some x \<Rightarrow> if x \<noteq> [] then x else d)"

subsection \<open>Steps of an upload\<close>

text \<open>
  The four steps of the orchestrator, and the step an event belongs to: the request for
  the upload URL is the presign step, the two calls of \<open>downloadTelegramFile\<close> are the
  fetch step, the \<open>PUT\<close> is the transfer step and the completion call the confirm step.
  \<open>steps_run\<close> lists the steps of a trace in the order they were entered.
\<close>

datatype step = Presign | Fetch | Transfer | Confirm

fun step_of :: "event \<Rightarrow> step option" where
  "step_of (Backend (GetUploadUrl _ _ _ _)) = Some Presign"
| "step_of (Backend (CompleteUpload _ _)) = Some Confirm"
| "step_of (TelegramGetFile _) = Some Fetch"
| "step_of (TelegramDownload _) = Some Fetch"
| "step_of (S3Put _ _ _) = Some Transfer"
| "step_of _ = None"

definition steps_run :: "event list \<Rightarrow> step list" where
  "steps_run t = remdups_adj (List.map_filter step_of t)"

subsection \<open>A sample world\<close>

text \<open>
  A world in which every call succeeds, a sender and a context, for evaluating the
  handlers on concrete inputs.
\<close>

definition sample_world :: world where
  "sample_world =
     \<lparr>createUser_answer =
        Some (HttpOk (Some
          \<lparr>resp_status = lit ''success'', resp_message = lit ''User found'',
           data =
             \<lparr>cu_user =
                \<lparr>user_id = lit ''u-1'', user_telegramId = lit ''42'', user_phoneNumber = None,
                 user_name = lit ''Ada'', user_profilePic = None, user_isPhoneVerified = False,
                 user_createdAt = lit ''2025-01-01''\<rparr>,
              cu_token = lit ''t'', cu_isNewUser = False\<rparr>\<rparr>)),
      uploadFile_answer =
        AxiosOk
          \<lparr>resp_status = lit ''success'', resp_message = lit ''ok'',
           data =
             \<lparr>uf_fsObjectId = lit ''obj-1'', uf_filename = lit ''a.txt'', uf_size = 3,
              uf_sourceType = lit ''telegram''\<rparr>\<rparr>,
      generateShareLink_answer =
        Some (HttpOk (Some
          \<lparr>resp_status = lit ''success'', resp_message = lit ''ok'',
           data =
             \<lparr>gs_shareableLink = lit ''https://s/1'', gs_filename = lit ''a.txt'', gs_fileSize = 3,
              gs_expiresAt = None\<rparr>\<rparr>)),
      updatePhone_answer =
        Some (HttpOk (Some
          \<lparr>resp_status = lit ''success'', resp_message = lit ''ok'',
           data =
             \<lparr>up_user =
                \<lparr>up_id = lit ''u-1'', up_telegramId = lit ''42'', up_phoneNumber = lit ''+100'',
                 up_name = lit ''Ada'', up_isPhoneVerified = True\<rparr>\<rparr>\<rparr>)),
      listSharedFiles_answer =
        Some (HttpOk (Some
          \<lparr>resp_status = lit ''success'', resp_message = lit ''ok'', data = \<lparr>files = []\<rparr>\<rparr>)),
      deleteShareLink_answer =
        Some (HttpOk (Some
          \<lparr>resp_status = lit ''success'', resp_message = lit ''ok'',
           data = \<lparr>dl_fsObjectId = lit ''obj-1'', dl_filename = lit ''a.txt''\<rparr>\<rparr>)),
      getLinksWithViews_answer =
        Some (HttpOk (Some
          \<lparr>resp_status = lit ''success'', resp_message = lit ''ok'',
           data =
             \<lparr>links = [], pagination = \<lparr>page = 1, limit = 5, total = 0, totalPages = 0\<rparr>\<rparr>\<rparr>)),
      deleteAccount_answer =
        Some (HttpOk (Some
          \<lparr>resp_status = lit ''success'', resp_message = lit ''ok'', data = \<lparr>deleted = True\<rparr>\<rparr>)),
      getUploadUrl_answer =
        Some (HttpOk (Some
          \<lparr>resp_status = lit ''success'', resp_message = lit ''ok'',
           data =
             \<lparr>gu_fsObjectId = lit ''obj-1'', uploadUrl = lit ''https://s3/put'',
              s3Key = lit ''k''\<rparr>\<rparr>)),
      completeUpload_answer =
        Some (HttpOk (Some
          \<lparr>resp_status = lit ''success'', resp_message = lit ''ok'',
           data =
             \<lparr>co_fsObjectId = lit ''obj-1'', co_filename = lit ''a.txt'', co_size = 3,
              co_sourceType = lit ''telegram'', co_shareableLink = lit ''https://s/1''\<rparr>\<rparr>)),
      s3_answer = Some \<lparr>put_ok = True, put_status = 200\<rparr>,
      getFile_answer = Some (Some (lit ''docs/a.txt'')),
      download_answer = Some \<lparr>file_ok = True, file_statusText = lit ''OK'', file_bytes = [1, 2, 3]\<rparr>,
      token = lit ''T'',
      now = 1700000000000,
      status_message_id = 7\<rparr>"

definition sample_user :: User where
  "sample_user = \<lparr>tg_id = 42, first_name = lit ''Ada'', last_name = None, username = None\<rparr>"

definition sample_ctx :: Context where
  "sample_ctx = \<lparr>update_id = 900, from_user = Some sample_user, chat_id = 5\<rparr>"

definition sample_document :: Document where
  "sample_document =
     \<lparr>doc_file_id = lit ''f1'', doc_file_name = Some (lit ''a.txt''),
      doc_mime_type = Some (lit ''text/plain''), doc_file_size = Some 3\<rparr>"

text \<open>A voice message of 20 MiB and one byte.\<close>

definition oversized_voice :: Voice where
  "oversized_voice =
     \<lparr>voice_file_id = lit ''v1'', voice_mime_type = None, voice_file_size = Some 20971521\<rparr>"

text \<open>A shared file whose name has 34 code units.\<close>

definition long_named_file :: SharedFile where
  "long_named_file =
     \<lparr>sf_fsObjectId = lit ''obj-9'', sf_filename = lit ''quarterly-report-final-version.pdf'',
      sf_size = 2048, sf_sourceType = lit ''telegram'', sf_createdAt = lit ''2025-01-01'',
      sf_shareCreatedAt = lit ''2025-01-02''\<rparr>"

definition sample_envelope :: ApiErrorResponse where
  "sample_envelope =
     \<lparr>status = lit ''error'', message = lit ''User not found'', error = None\<rparr>"

section \<open>Properties\<close>

subsection \<open>Decimal rendering\<close>

lemma digitsOf_small: "n < 10 \<Longrightarrow> digitsOf n = [48 + n]"
  by (simp add: digitsOf.simps)

lemma digitsOf_large: "10 \<le> n \<Longrightarrow> digitsOf n = digitsOf (n div 10) @ [48 + n mod 10]"
  by (subst digitsOf.simps) simp

lemmas digitsOf_steps = digitsOf_small digitsOf_large

lemma decimal_value_snoc: "decimal_value (xs @ [d]) = 10 * decimal_value xs + (d - 48)"
  by (simp add: decimal_value_def)

lemma decimal_value_digitsOf: "decimal_value (digitsOf n) = n"
proof (induction n rule: digitsOf.induct)
  case (1 n)
  show ?case
  proof (cases "n < 10")
    case True
    then show ?thesis by (simp add: digitsOf_small decimal_value_def)
  next
    case False
    with "1.IH" have "decimal_value (digitsOf (n div 10)) = n div 10" by simp
    with False show ?thesis by (simp add: digitsOf_large decimal_value_snoc)
  qed
qed

lemma digitsOf_ne: "digitsOf n \<noteq> []"
  by (subst digitsOf.simps) simp

lemma digitsOf_range: "d \<in> set (digitsOf n) \<Longrightarrow> 48 \<le> d \<and> d < 58"
proof (induction n arbitrary: d rule: digitsOf.induct)
  case (1 n)
  show ?case
  proof (cases "n < 10")
    case True
    with "1.prems" show ?thesis by (simp add: digitsOf_small)
  next
    case False
    with "1.prems" have "d \<in> set (digitsOf (n div 10)) \<or> d = 48 + n mod 10"
      by (auto simp add: digitsOf_large)
    then show ?thesis
    proof
      assume "d \<in> set (digitsOf (n div 10))"
      with "1.IH" False show ?thesis by blast
    next
      assume "d = 48 + n mod 10"
      then show ?thesis by simp
    qed
  qed
qed

lemma digitsOf_inj: "digitsOf m = digitsOf n \<Longrightarrow> m = n"
  by (metis decimal_value_digitsOf)

lemma toString_inj: "toString a = toString b \<longleftrightarrow> a = b"
proof
  assume e: "toString a = toString b"
  have no_minus: "hd (digitsOf k) \<noteq> 45" for k
    using digitsOf_range [of "hd (digitsOf k)" k] digitsOf_ne [of k] by (auto dest: hd_in_set)
  show "a = b"
  proof (cases "a < 0")
    case True
    show ?thesis
    proof (cases "b < 0")
      case True
      with \<open>a < 0\<close> e have "digitsOf (nat (- a)) = digitsOf (nat (- b))" by (simp add: toString_def)
      then have "nat (- a) = nat (- b)" by (rule digitsOf_inj)
      with True \<open>a < 0\<close> show ?thesis by simp
    next
      case False
      with \<open>a < 0\<close> e have "45 # digitsOf (nat (- a)) = digitsOf (nat b)" by (simp add: toString_def)
      then have "hd (digitsOf (nat b)) = 45" by (metis list.sel(1))
      with no_minus show ?thesis by blast
    qed
  next
    case False
    show ?thesis
    proof (cases "b < 0")
      case True
      with False e have "digitsOf (nat a) = 45 # digitsOf (nat (- b))" by (simp add: toString_def)
      then have "hd (digitsOf (nat a)) = 45" by (metis list.sel(1))
      with no_minus show ?thesis by blast
    next
      case nonneg: False
      with False e have "digitsOf (nat a) = digitsOf (nat b)" by (simp add: toString_def)
      then have "nat a = nat b" by (rule digitsOf_inj)
      with False nonneg show ?thesis by simp
    qed
  qed
qed simp

subsection \<open>Update deduplicator\<close>

lemma fold_set_delete: "fold set_delete ds s = filter (\<lambda>y. y \<notin> set ds) s"
proof (induction ds arbitrary: s)
  case Nil
  show ?case by simp
next
  case (Cons d ds)
  have "fold set_delete (d # ds) s = filter (\<lambda>y. y \<notin> set ds) (filter (\<lambda>y. y \<noteq> d) s)"
    by (simp add: Cons.IH set_delete_def)
  also have "\<dots> = filter (\<lambda>y. y \<notin> set (d # ds)) s"
    by (simp add: conj_commute)
  finally show ?case .
qed

lemma filter_out_prefix:
  assumes "distinct (xs @ ys)"
  shows "filter (\<lambda>y. y \<notin> set xs) (xs @ ys) = ys"
proof -
  from assms have disj: "set xs \<inter> set ys = {}" by simp
  have "filter (\<lambda>y. y \<notin> set xs) xs = []"
    by (simp add: filter_empty_conv)
  moreover have "filter (\<lambda>y. y \<notin> set xs) ys = ys"
    using disj by (auto simp add: filter_id_conv)
  ultimately show ?thesis by simp
qed

lemma evict_oldest:
  assumes "distinct s"
  shows "filter (\<lambda>y. y \<notin> set (take n s)) s = drop n s"
  using filter_out_prefix [of "take n s" "drop n s"] assms by simp

lemma isProcessed_seen: "u \<in> set s \<Longrightarrow> isProcessed u s = (True, s)"
  by (simp add: isProcessed_def set_has_def)

lemma isProcessed_fresh:
  "u \<notin> set s \<Longrightarrow> length s < 1000 \<Longrightarrow> isProcessed u s = (False, s @ [u])"
  by (simp add: isProcessed_def set_has_def set_add_def MAX_PROCESSED_UPDATES_def)

lemma isProcessed_evict:
  assumes "distinct s" and "u \<notin> set s" and "1000 \<le> length s"
  shows "isProcessed u s = (False, drop 500 s @ [u])"
proof -
  have "u \<notin> set (drop 500 s)" using assms(2) by (auto dest: in_set_dropD)
  then show ?thesis
    using assms
    by (simp add: isProcessed_def set_has_def set_add_def MAX_PROCESSED_UPDATES_def
        fold_set_delete evict_oldest)
qed

lemma isProcessed_cases:
  assumes "distinct s"
  shows "isProcessed u s =
    (if u \<in> set s then (True, s)
     else if length s < 1000 then (False, s @ [u])
     else (False, drop 500 s @ [u]))"
  using assms isProcessed_seen [of u s] isProcessed_fresh [of u s] isProcessed_evict [of s u]
  by (simp add: not_less)

lemma isProcessed_invariant:
  assumes "distinct s" and "length s \<le> 1000"
  shows "distinct (snd (isProcessed u s)) \<and> length (snd (isProcessed u s)) \<le> 1000"
proof -
  have "u \<notin> set s \<Longrightarrow> u \<notin> set (drop 500 s)" by (auto dest: in_set_dropD)
  then show ?thesis
    using assms by (auto simp add: isProcessed_cases [OF assms(1)])
qed

lemma isProcessed_invariant_distinct: "distinct s \<Longrightarrow> distinct (snd (isProcessed u s))"
proof -
  assume d: "distinct s"
  have "u \<notin> set s \<Longrightarrow> u \<notin> set (drop 500 s)" by (auto dest: in_set_dropD)
  with d show ?thesis by (auto simp add: isProcessed_cases [OF d])
qed

lemma processed_from_invariant:
  assumes "distinct s" and "length s \<le> 1000"
  shows "distinct (foldl (\<lambda>s u. snd (isProcessed u s)) s ids)
       \<and> length (foldl (\<lambda>s u. snd (isProcessed u s)) s ids) \<le> 1000"
  using assms
proof (induction ids arbitrary: s)
  case Nil
  then show ?case by simp
next
  case (Cons u ids)
  from isProcessed_invariant [OF Cons.prems, of u]
  have "distinct (snd (isProcessed u s))" and "length (snd (isProcessed u s)) \<le> 1000"
    by simp_all
  from Cons.IH [OF this] show ?case by simp
qed

text \<open>
  Claim C4. On a set \<open>s\<close> (a list without repetition, as a \<open>Set\<close> is), \<open>isProcessed u\<close>
  returns true exactly when \<open>u\<close> is recorded in \<open>s\<close>, and then leaves \<open>s\<close> as it is; otherwise it returns false and records \<open>u\<close> as
  the newest element. Below the capacity of 1000 nothing is removed; at capacity the 500
  earliest-inserted identifiers are removed, all at once, before \<open>u\<close> is added. A set
  within the capacity stays within it.
\<close>

theorem isProcessed_contract:
  assumes "distinct s"
  shows "fst (isProcessed u s) = (u \<in> set s)
       \<and> (u \<in> set s \<longrightarrow> snd (isProcessed u s) = s)
       \<and> (u \<notin> set s \<and> length s < MAX_PROCESSED_UPDATES \<longrightarrow> snd (isProcessed u s) = s @ [u])
       \<and> (u \<notin> set s \<and> length s \<ge> MAX_PROCESSED_UPDATES \<longrightarrow>
             snd (isProcessed u s) = drop 500 s @ [u])
       \<and> (length s \<le> MAX_PROCESSED_UPDATES \<longrightarrow>
             length (snd (isProcessed u s)) \<le> MAX_PROCESSED_UPDATES)"
  using isProcessed_invariant [OF assms, of u]
  by (simp add: isProcessed_cases [OF assms] MAX_PROCESSED_UPDATES_def)

theorem isProcessed_contract_witness:
  "isProcessed 7 [5, 7] = (True, [5, 7])
   \<and> isProcessed 9 [5, 7] = (False, [5, 7, 9])
   \<and> isProcessed 1000 (map int [0..<1000]) = (False, drop 500 (map int [0..<1000]) @ [1000])"
proof -
  have d1: "distinct [5, 7 :: int]" by simp
  have d2: "distinct (map int [0..<1000])" by (simp add: distinct_map)
  have f: "(1000 :: int) \<notin> set (map int [0..<1000])" by auto
  have l: "length (map int [0..<1000]) \<ge> MAX_PROCESSED_UPDATES"
    by (simp add: MAX_PROCESSED_UPDATES_def)
  have a: "isProcessed 7 [5, 7] = (True, [5, 7])"
    using isProcessed_contract [OF d1, of 7] by (simp add: prod_eq_iff)
  have b: "isProcessed 9 [5, 7] = (False, [5, 7, 9])"
    using isProcessed_contract [OF d1, of 9] by (simp add: prod_eq_iff MAX_PROCESSED_UPDATES_def)
  have c: "isProcessed 1000 (map int [0..<1000]) = (False, drop 500 (map int [0..<1000]) @ [1000])"
    using isProcessed_contract [OF d2, of 1000] f l by (simp add: prod_eq_iff)
  from a b c show ?thesis by simp
qed

text \<open>
  Claim C9. Starting from the empty set, after any sequence of calls to \<open>isProcessed\<close>,
  and so after each call of the sequence, the set holds at most
  \<open>MAX_PROCESSED_UPDATES\<close> = 1000 identifiers.
\<close>

theorem processed_updates_bounded:
  "length (processed_after ids) \<le> MAX_PROCESSED_UPDATES
   \<and> length (processed_after (take k ids)) \<le> MAX_PROCESSED_UPDATES"
  using processed_from_invariant [of "[]" ids] processed_from_invariant [of "[]" "take k ids"]
  by (simp add: processed_after_def MAX_PROCESSED_UPDATES_def)

subsection \<open>Presentation formatter\<close>

lemma toFixed1_nearest:
  assumes "0 \<le> x"
  shows "\<exists>ip d. d < 10 \<and> toFixed1 x = digitsOf ip @ lit ''.'' @ [48 + d]
           \<and> \<bar>(of_nat ip + of_nat d / 10) - x\<bar> \<le> 1 / 20"
proof -
  define n where "n = nat \<lfloor>x * 10 + 1 / 2\<rfloor>"
  have nonneg: "0 \<le> \<lfloor>x * 10 + 1 / 2\<rfloor>" using assms by simp
  then have n_int: "(of_nat n :: rat) = of_int \<lfloor>x * 10 + 1 / 2\<rfloor>"
    by (simp add: n_def)
  have lo: "of_int \<lfloor>x * 10 + 1 / 2\<rfloor> \<le> x * 10 + 1 / 2" by (rule of_int_floor_le)
  have hi: "x * 10 + 1 / 2 < of_int \<lfloor>x * 10 + 1 / 2\<rfloor> + 1" by linarith
  from lo hi have near: "\<bar>of_nat n - x * 10\<bar> \<le> 1 / 2" unfolding n_int by linarith
  have split: "(of_nat (n div 10) + of_nat (n mod 10) / 10 :: rat) = of_nat n / 10"
  proof -
    have "(of_nat n :: rat) = of_nat (10 * (n div 10) + n mod 10)" by simp
    also have "\<dots> = 10 * of_nat (n div 10) + of_nat (n mod 10)" by (simp only: of_nat_add of_nat_mult of_nat_numeral)
    finally show ?thesis by (simp add: field_simps)
  qed
  have "\<bar>of_nat n / 10 - x\<bar> = \<bar>of_nat n - x * 10\<bar> / 10"
    by (simp add: field_simps abs_divide)
  with near have close: "\<bar>(of_nat (n div 10) + of_nat (n mod 10) / 10) - x\<bar> \<le> 1 / 20"
    by (simp add: split)
  have "toFixed1 x = digitsOf (n div 10) @ lit ''.'' @ [48 + n mod 10]"
    by (simp add: toFixed1_def n_def [symmetric] digitsOf_small)
  with close show ?thesis by (intro exI [of _ "n div 10"] exI [of _ "n mod 10"]) simp
qed

lemma toFixed1_fraction:
  assumes "0 < d"
  shows "toFixed1 (of_nat b / of_nat d) =
    (let n = (20 * b + d) div (2 * d) in digitsOf (n div 10) @ lit ''.'' @ digitsOf (n mod 10))"
proof -
  have "(of_nat b / of_nat d :: rat) * 10 + 1 / 2 = of_nat (20 * b + d) / of_nat (2 * d)"
    using assms by (simp add: field_simps)
  then have "\<lfloor>(of_nat b / of_nat d :: rat) * 10 + 1 / 2\<rfloor> = int ((20 * b + d) div (2 * d))"
    by (simp only: floor_divide_of_nat_eq)
  then show ?thesis by (simp add: toFixed1_def)
qed

lemma formatFileSize_compute:
  "formatFileSize bytes =
    (if bytes < 1024 then digitsOf bytes @ lit '' B''
     else if bytes < 1024 * 1024 then
       (let n = (20 * bytes + 1024) div 2048 in digitsOf (n div 10) @ lit ''.'' @ digitsOf (n mod 10)) @ lit '' KB''
     else (let n = (20 * bytes + 1048576) div 2097152 in digitsOf (n div 10) @ lit ''.'' @ digitsOf (n mod 10)) @ lit '' MB'')"
  using toFixed1_fraction [of 1024 bytes] toFixed1_fraction [of 1048576 bytes]
  by (simp add: formatFileSize_def)

text \<open>
  Claim C8. \<open>formatFileSize\<close> is a function of the byte count alone, with thresholds at
  1024 and 1024 * 1024. Below 1024 it is the decimal digits of the count followed by
  \<open>B\<close>. From 1024 to below 1024 * 1024 it is a decimal number with exactly one digit after
  the point followed by \<open>KB\<close>, and from 1024 * 1024 on the same followed by \<open>MB\<close>; the
  number printed is the byte count divided by 1024 (by 1024 * 1024) rounded to a tenth.
\<close>

theorem formatFileSize_thresholds:
  "(b < 1024 \<longrightarrow> formatFileSize b = digitsOf b @ lit '' B'' \<and> decimal_value (digitsOf b) = b)
 \<and> (1024 \<le> b \<and> b < 1024 * 1024 \<longrightarrow>
      (\<exists>ip d. d < 10 \<and> formatFileSize b = digitsOf ip @ lit ''.'' @ [48 + d] @ lit '' KB''
         \<and> \<bar>(of_nat ip + of_nat d / 10) - of_nat b / 1024\<bar> \<le> (1 / 20 :: rat)))
 \<and> (1024 * 1024 \<le> b \<longrightarrow>
      (\<exists>ip d. d < 10 \<and> formatFileSize b = digitsOf ip @ lit ''.'' @ [48 + d] @ lit '' MB''
         \<and> \<bar>(of_nat ip + of_nat d / 10) - of_nat b / (1024 * 1024)\<bar> \<le> (1 / 20 :: rat)))"
proof (intro conjI impI)
  assume "b < 1024"
  then show "formatFileSize b = digitsOf b @ lit '' B''" by (simp add: formatFileSize_def)
next
  show "decimal_value (digitsOf b) = b" by (rule decimal_value_digitsOf)
next
  assume r: "1024 \<le> b \<and> b < 1024 * 1024"
  have "(0 :: rat) \<le> of_nat b / 1024" by simp
  from toFixed1_nearest [OF this] obtain ip d where
    "d < 10" "toFixed1 (of_nat b / 1024) = digitsOf ip @ lit ''.'' @ [48 + d]"
    "\<bar>(of_nat ip + of_nat d / 10) - of_nat b / 1024\<bar> \<le> (1 / 20 :: rat)" by blast
  with r show "\<exists>ip d. d < 10 \<and> formatFileSize b = digitsOf ip @ lit ''.'' @ [48 + d] @ lit '' KB''
         \<and> \<bar>(of_nat ip + of_nat d / 10) - of_nat b / 1024\<bar> \<le> (1 / 20 :: rat)"
    by (intro exI [of _ ip] exI [of _ d]) (simp add: formatFileSize_def)
next
  assume r: "1024 * 1024 \<le> b"
  have "(0 :: rat) \<le> of_nat b / (1024 * 1024)" by simp
  from toFixed1_nearest [OF this] obtain ip d where
    "d < 10" "toFixed1 (of_nat b / (1024 * 1024)) = digitsOf ip @ lit ''.'' @ [48 + d]"
    "\<bar>(of_nat ip + of_nat d / 10) - of_nat b / (1024 * 1024)\<bar> \<le> (1 / 20 :: rat)" by blast
  with r show "\<exists>ip d. d < 10 \<and> formatFileSize b = digitsOf ip @ lit ''.'' @ [48 + d] @ lit '' MB''
         \<and> \<bar>(of_nat ip + of_nat d / 10) - of_nat b / (1024 * 1024)\<bar> \<le> (1 / 20 :: rat)"
    by (intro exI [of _ ip] exI [of _ d]) (simp add: formatFileSize_def)
qed

theorem formatFileSize_thresholds_witness:
  "formatFileSize 1023 = lit ''1023 B''
 \<and> (\<exists>ip d. d < 10 \<and> formatFileSize 1536 = digitsOf ip @ lit ''.'' @ [48 + d] @ lit '' KB''
         \<and> \<bar>(of_nat ip + of_nat d / 10) - of_nat 1536 / 1024\<bar> \<le> (1 / 20 :: rat))
 \<and> formatFileSize 1536 = lit ''1.5 KB''
 \<and> (\<exists>ip d. d < 10 \<and> formatFileSize 20971520 = digitsOf ip @ lit ''.'' @ [48 + d] @ lit '' MB''
         \<and> \<bar>(of_nat ip + of_nat d / 10) - of_nat 20971520 / (1024 * 1024)\<bar> \<le> (1 / 20 :: rat))
 \<and> formatFileSize 20971520 = lit ''20.0 MB''"
proof -
  have a: "formatFileSize 1023 = lit ''1023 B''"
    using formatFileSize_thresholds [of 1023] by (simp add: digitsOf_steps lit_def)
  have b: "\<exists>ip d. d < 10 \<and> formatFileSize 1536 = digitsOf ip @ lit ''.'' @ [48 + d] @ lit '' KB''
         \<and> \<bar>(of_nat ip + of_nat d / 10) - of_nat 1536 / 1024\<bar> \<le> (1 / 20 :: rat)"
    using formatFileSize_thresholds [of 1536] by simp
  have c: "formatFileSize 1536 = lit ''1.5 KB''"
    by (simp add: formatFileSize_compute digitsOf_steps lit_def)
  have d: "\<exists>ip d. d < 10 \<and> formatFileSize 20971520 = digitsOf ip @ lit ''.'' @ [48 + d] @ lit '' MB''
         \<and> \<bar>(of_nat ip + of_nat d / 10) - of_nat 20971520 / (1024 * 1024)\<bar> \<le> (1 / 20 :: rat)"
    using formatFileSize_thresholds [of 20971520] by simp
  have e: "formatFileSize 20971520 = lit ''20.0 MB''"
    by (simp add: formatFileSize_compute digitsOf_steps lit_def)
  from a b c d e show ?thesis by blast
qed

subsection \<open>Asynchronous computations\<close>

lemma bind_io_Inl [simp]: "bind_io (t, Inl e) f = (t, Inl e)"
  by (simp add: bind_io_def)

lemma bind_io_Inr [simp]: "bind_io (t, Inr x) f = (t @ fst (f x), snd (f x))"
  by (simp add: bind_io_def split: prod.splits)

lemma catch_io_Inl [simp]: "catch_io (t, Inl e) h = (t @ fst (h e), snd (h e))"
  by (simp add: catch_io_def split: prod.splits)

lemma catch_io_Inr [simp]: "catch_io (t, Inr x) h = (t, Inr x)"
  by (simp add: catch_io_def)

lemma bind_io_fail: "snd m = Inl e \<Longrightarrow> bind_io m f = (fst m, Inl e)"
  by (cases m) simp

lemma bind_io_ok: "snd m = Inr x \<Longrightarrow> bind_io m f = (fst m @ fst (f x), snd (f x))"
  by (cases m) simp

lemma catch_io_fail: "snd m = Inl e \<Longrightarrow> catch_io m h = (fst m @ fst (h e), snd (h e))"
  by (cases m) simp

lemma catch_io_ok: "snd m = Inr x \<Longrightarrow> catch_io m h = (fst m, Inr x)"
  by (cases m) simp

lemmas io_simps = return_io_def throw_io_def emit_def post_def

subsection \<open>Storage API client\<close>

lemma request_not_ok:
  "request (Some (HttpNotOk st (Some e))) =
     Inl (CloudStorageApiError
            (if message e \<noteq> [] then message e
             else case error e of
                    None \<Rightarrow> lit ''API request failed''
                  | Some d \<Rightarrow> if d \<noteq> [] then d else lit ''API request failed'')
            st (Some e))"
  by (simp add: request_def or_str_def split: option.splits)

lemma request_not_json: "request (Some (HttpNotOk st None)) = Inl JsonSyntaxError"
  by (simp add: request_def)

text \<open>
  Claim C5, as amended. For every operation of the client that goes through \<open>request\<close>,
  and for \<open>uploadFile\<close>: when the backend answers with a non-success status \<open>st\<close> and a
  body that parses as the error envelope \<open>e\<close>, the operation fails with a
  \<open>CloudStorageApiError\<close> that carries the status \<open>st\<close>, the envelope \<open>e\<close> itself and as its
  message the envelope's message, or its error detail when the message is empty, or the
  default text when both are missing or empty. \<open>uploadToS3\<close>, which talks to object
  storage, fails on a non-success status with a \<open>CloudStorageApiError\<close> of a fixed message
  and that status, without an envelope.
\<close>

theorem client_surfaces_envelope:
  "(createUser_answer w = Some (HttpNotOk st (Some e)) \<longrightarrow>
      snd (createUser w tid nm) =
        Inl (CloudStorageApiError (envelope_message e (lit ''API request failed'')) st (Some e)))
 \<and> (generateShareLink_answer w = Some (HttpNotOk st (Some e)) \<longrightarrow>
      snd (generateShareLink w tid oid) =
        Inl (CloudStorageApiError (envelope_message e (lit ''API request failed'')) st (Some e)))
 \<and> (updatePhone_answer w = Some (HttpNotOk st (Some e)) \<longrightarrow>
      snd (updatePhone w tid ph) =
        Inl (CloudStorageApiError (envelope_message e (lit ''API request failed'')) st (Some e)))
 \<and> (listSharedFiles_answer w = Some (HttpNotOk st (Some e)) \<longrightarrow>
      snd (listSharedFiles w tid) =
        Inl (CloudStorageApiError (envelope_message e (lit ''API request failed'')) st (Some e)))
 \<and> (deleteShareLink_answer w = Some (HttpNotOk st (Some e)) \<longrightarrow>
      snd (deleteShareLink w tid oid) =
        Inl (CloudStorageApiError (envelope_message e (lit ''API request failed'')) st (Some e)))
 \<and> (getLinksWithViews_answer w = Some (HttpNotOk st (Some e)) \<longrightarrow>
      snd (getLinksWithViews w tid pn ps) =
        Inl (CloudStorageApiError (envelope_message e (lit ''API request failed'')) st (Some e)))
 \<and> (deleteAccount_answer w = Some (HttpNotOk st (Some e)) \<longrightarrow>
      snd (deleteAccount w tid) =
        Inl (CloudStorageApiError (envelope_message e (lit ''API request failed'')) st (Some e)))
 \<and> (getUploadUrl_answer w = Some (HttpNotOk st (Some e)) \<longrightarrow>
      snd (getUploadUrl w tid fname ct sz) =
        Inl (CloudStorageApiError (envelope_message e (lit ''API request failed'')) st (Some e)))
 \<and> (completeUpload_answer w = Some (HttpNotOk st (Some e)) \<longrightarrow>
      snd (completeUpload w tid oid) =
        Inl (CloudStorageApiError (envelope_message e (lit ''API request failed'')) st (Some e)))
 \<and> (uploadFile_answer w = AxiosResponseError st e \<longrightarrow>
      snd (uploadFile w tid fname ct buf) =
        Inl (CloudStorageApiError (envelope_message e (lit ''Upload failed'')) st (Some e)))
 \<and> (s3_answer w = Some \<lparr>put_ok = False, put_status = st\<rparr> \<longrightarrow>
      snd (uploadToS3 w url buf ct) =
        Inl (CloudStorageApiError (lit ''Failed to upload to S3'') st None))"
  by (simp add: uploadToS3_def createUser_def generateShareLink_def updatePhone_def listSharedFiles_def
      deleteShareLink_def getLinksWithViews_def deleteAccount_def getUploadUrl_def
      completeUpload_def uploadFile_def post_def request_not_ok envelope_message_def or_str_def
      split: option.splits)

theorem client_surfaces_envelope_witness:
  "snd (deleteAccount (sample_world\<lparr>deleteAccount_answer := Some (HttpNotOk 404 (Some sample_envelope))\<rparr>)
         (lit ''42'')) =
     Inl (CloudStorageApiError (lit ''User not found'') 404 (Some sample_envelope))"
  using client_surfaces_envelope
    [of "sample_world\<lparr>deleteAccount_answer := Some (HttpNotOk 404 (Some sample_envelope))\<rparr>"
        404 sample_envelope]
  by (simp add: envelope_message_def sample_envelope_def lit_def)

text \<open>
  Claim C5 as stated fails when the body of the non-success response is not JSON:
  \<open>response.json()\<close> is awaited before \<open>response.ok\<close> is tested, so the operation
  rejects with the parse error and not with a \<open>CloudStorageApiError\<close>.
\<close>

theorem client_not_json_counterexample:
  "snd (deleteAccount (sample_world\<lparr>deleteAccount_answer := Some (HttpNotOk 502 None)\<rparr>) (lit ''42''))
     = Inl JsonSyntaxError"
  by (simp add: deleteAccount_def post_def request_not_json)

subsection \<open>Direct upload orchestrator\<close>

lemma post_trace [simp]: "fst (post c a) = [Backend c]"
  by (simp add: post_def)

lemma post_result [simp]: "snd (post c a) = request a"
  by (simp add: post_def)

lemma getUploadUrl_trace: "fst (getUploadUrl w tid fname ct sz) = [Backend (GetUploadUrl tid fname ct sz)]"
  by (simp add: getUploadUrl_def)

lemma completeUpload_trace: "fst (completeUpload w tid oid) = [Backend (CompleteUpload tid oid)]"
  by (simp add: completeUpload_def)

lemma uploadToS3_trace: "fst (uploadToS3 w url buf ct) = [S3Put url buf ct]"
  by (simp add: uploadToS3_def)

lemma download_trace:
  "fst (downloadTelegramFile w fid) = [TelegramGetFile fid]
   \<or> (\<exists>url. fst (downloadTelegramFile w fid) = [TelegramGetFile fid, TelegramDownload url])"
  by (simp add: downloadTelegramFile_def Let_def io_simps split: option.splits)

lemma download_ok_trace:
  "snd (downloadTelegramFile w fid) = Inr buf \<Longrightarrow>
     \<exists>url. fst (downloadTelegramFile w fid) = [TelegramGetFile fid, TelegramDownload url]"
  by (auto simp add: downloadTelegramFile_def Let_def io_simps split: option.splits if_splits)

lemma steps_presign: "steps_run [Backend (GetUploadUrl tid fname ct sz)] = [Presign]"
  by (simp add: steps_run_def)

lemma steps_fetch:
  "steps_run (Backend (GetUploadUrl tid fname ct sz) # fst (downloadTelegramFile w fid)) = [Presign, Fetch]"
  using download_trace [of w fid] by (auto simp add: steps_run_def)

lemma steps_transfer:
  "steps_run (Backend (GetUploadUrl tid fname ct sz) # fst (downloadTelegramFile w fid) @ [S3Put url buf ct])
     = [Presign, Fetch, Transfer]"
  using download_trace [of w fid] by (auto simp add: steps_run_def)

lemma steps_confirm:
  "steps_run (Backend (GetUploadUrl tid fname ct sz) # fst (downloadTelegramFile w fid)
              @ [S3Put url buf ct, Backend (CompleteUpload tid oid)])
     = [Presign, Fetch, Transfer, Confirm]"
  using download_trace [of w fid] by (auto simp add: steps_run_def)

lemma fastUploadFile_presign_fails:
  assumes "snd (getUploadUrl w tid fname ct sz) = Inl e"
  shows "fastUploadFile w tid fid fname ct sz = ([Backend (GetUploadUrl tid fname ct sz)], Inl e)"
  using assms by (simp add: fastUploadFile_def bind_io_fail getUploadUrl_trace)

lemma fastUploadFile_fetch_fails:
  assumes "snd (getUploadUrl w tid fname ct sz) = Inr u"
    and "snd (downloadTelegramFile w fid) = Inl e"
  shows "fastUploadFile w tid fid fname ct sz =
    (Backend (GetUploadUrl tid fname ct sz) # fst (downloadTelegramFile w fid), Inl e)"
  using assms by (simp add: fastUploadFile_def bind_io_ok bind_io_fail getUploadUrl_trace)

lemma fastUploadFile_transfer_fails:
  assumes "snd (getUploadUrl w tid fname ct sz) = Inr u"
    and "snd (downloadTelegramFile w fid) = Inr buf"
    and "snd (uploadToS3 w (uploadUrl (data u)) buf ct) = Inl e"
  shows "fastUploadFile w tid fid fname ct sz =
    (Backend (GetUploadUrl tid fname ct sz) # fst (downloadTelegramFile w fid)
       @ [S3Put (uploadUrl (data u)) buf ct], Inl e)"
  using assms
  by (simp add: fastUploadFile_def bind_io_ok bind_io_fail getUploadUrl_trace uploadToS3_trace)

lemma fastUploadFile_confirm:
  assumes "snd (getUploadUrl w tid fname ct sz) = Inr u"
    and "snd (downloadTelegramFile w fid) = Inr buf"
    and "snd (uploadToS3 w (uploadUrl (data u)) buf ct) = Inr ()"
  shows "fastUploadFile w tid fid fname ct sz =
    (Backend (GetUploadUrl tid fname ct sz) # fst (downloadTelegramFile w fid)
       @ [S3Put (uploadUrl (data u)) buf ct, Backend (CompleteUpload tid (gu_fsObjectId (data u)))],
     (case snd (completeUpload w tid (gu_fsObjectId (data u))) of
        Inl e \<Rightarrow> Inl e
      | Inr c \<Rightarrow> Inr \<lparr>res_shareableLink = co_shareableLink (data c),
                   res_filename = co_filename (data c), res_size = co_size (data c)\<rparr>))"
  using assms
  by (cases "snd (completeUpload w tid (gu_fsObjectId (data u)))")
     (simp_all add: fastUploadFile_def bind_io_ok bind_io_fail getUploadUrl_trace uploadToS3_trace
        completeUpload_trace return_io_def)

lemma fastUploadFile_ok_steps:
  assumes "snd (fastUploadFile w tid fid fname ct sz) = Inr r"
  shows "\<exists>u buf url.
      snd (getUploadUrl w tid fname ct sz) = Inr u \<and> snd (downloadTelegramFile w fid) = Inr buf
    \<and> fst (fastUploadFile w tid fid fname ct sz) =
        [Backend (GetUploadUrl tid fname ct sz), TelegramGetFile fid, TelegramDownload url,
         S3Put (uploadUrl (data u)) buf ct, Backend (CompleteUpload tid (gu_fsObjectId (data u)))]"
proof (cases "snd (getUploadUrl w tid fname ct sz)")
  case (Inl e)
  from fastUploadFile_presign_fails [OF this] assms show ?thesis by simp
next
  case u: (Inr u)
  show ?thesis
  proof (cases "snd (downloadTelegramFile w fid)")
    case (Inl e)
    from fastUploadFile_fetch_fails [OF u this] assms show ?thesis by simp
  next
    case b: (Inr buf)
    from download_ok_trace [OF b] obtain url where
      tr: "fst (downloadTelegramFile w fid) = [TelegramGetFile fid, TelegramDownload url]" by blast
    show ?thesis
    proof (cases "snd (uploadToS3 w (uploadUrl (data u)) buf ct)")
      case (Inl e)
      from fastUploadFile_transfer_fails [OF u b this] assms show ?thesis by simp
    next
      case (Inr x)
      then have "snd (uploadToS3 w (uploadUrl (data u)) buf ct) = Inr ()" by simp
      from fastUploadFile_confirm [OF u b this] u b tr show ?thesis by simp
    qed
  qed
qed

text \<open>
  Claim C1. In \<open>fastUploadFile\<close> a step that fails ends the run with the error of that
  step, and the steps entered are exactly those up to the failing one: presign alone when
  \<open>getUploadUrl\<close> fails; presign and fetch when \<open>downloadTelegramFile\<close> fails; presign,
  fetch and transfer when \<open>uploadToS3\<close> fails; all four when \<open>completeUpload\<close> fails. A
  run that succeeds has entered presign, fetch, transfer and confirm in this order, and
  its trace is the five calls: upload URL, \<open>getFile\<close>, download, \<open>PUT\<close>, completion.
\<close>

theorem fastUploadFile_order:
  "(snd (getUploadUrl w tid fname ct sz) = Inl e \<longrightarrow>
      snd (fastUploadFile w tid fid fname ct sz) = Inl e
      \<and> steps_run (fst (fastUploadFile w tid fid fname ct sz)) = [Presign])
 \<and> (snd (getUploadUrl w tid fname ct sz) = Inr u
      \<and> snd (downloadTelegramFile w fid) = Inl e \<longrightarrow>
      snd (fastUploadFile w tid fid fname ct sz) = Inl e
      \<and> steps_run (fst (fastUploadFile w tid fid fname ct sz)) = [Presign, Fetch])
 \<and> (snd (getUploadUrl w tid fname ct sz) = Inr u
      \<and> snd (downloadTelegramFile w fid) = Inr buf
      \<and> snd (uploadToS3 w (uploadUrl (data u)) buf ct) = Inl e \<longrightarrow>
      snd (fastUploadFile w tid fid fname ct sz) = Inl e
      \<and> steps_run (fst (fastUploadFile w tid fid fname ct sz)) = [Presign, Fetch, Transfer])
 \<and> (snd (getUploadUrl w tid fname ct sz) = Inr u
      \<and> snd (downloadTelegramFile w fid) = Inr buf
      \<and> snd (uploadToS3 w (uploadUrl (data u)) buf ct) = Inr ()
      \<and> snd (completeUpload w tid (gu_fsObjectId (data u))) = Inl e \<longrightarrow>
      snd (fastUploadFile w tid fid fname ct sz) = Inl e
      \<and> steps_run (fst (fastUploadFile w tid fid fname ct sz)) = [Presign, Fetch, Transfer, Confirm])
 \<and> (snd (fastUploadFile w tid fid fname ct sz) = Inr r \<longrightarrow>
      steps_run (fst (fastUploadFile w tid fid fname ct sz)) = [Presign, Fetch, Transfer, Confirm]
      \<and> (\<exists>v bytes url.
            snd (getUploadUrl w tid fname ct sz) = Inr v
          \<and> snd (downloadTelegramFile w fid) = Inr bytes
          \<and> fst (fastUploadFile w tid fid fname ct sz) =
              [Backend (GetUploadUrl tid fname ct sz), TelegramGetFile fid, TelegramDownload url,
               S3Put (uploadUrl (data v)) bytes ct,
               Backend (CompleteUpload tid (gu_fsObjectId (data v)))]))"
proof (intro conjI impI)
  assume a: "snd (getUploadUrl w tid fname ct sz) = Inl e"
  from fastUploadFile_presign_fails [OF a]
  show "snd (fastUploadFile w tid fid fname ct sz) = Inl e"
    and "steps_run (fst (fastUploadFile w tid fid fname ct sz)) = [Presign]"
    by (simp_all add: steps_presign)
next
  assume a: "snd (getUploadUrl w tid fname ct sz) = Inr u \<and> snd (downloadTelegramFile w fid) = Inl e"
  from fastUploadFile_fetch_fails [of w tid fname ct sz u fid e] a
  show "snd (fastUploadFile w tid fid fname ct sz) = Inl e"
    and "steps_run (fst (fastUploadFile w tid fid fname ct sz)) = [Presign, Fetch]"
    by (simp_all add: steps_fetch)
next
  assume a: "snd (getUploadUrl w tid fname ct sz) = Inr u
      \<and> snd (downloadTelegramFile w fid) = Inr buf
      \<and> snd (uploadToS3 w (uploadUrl (data u)) buf ct) = Inl e"
  from fastUploadFile_transfer_fails [of w tid fname ct sz u fid buf e] a
  show "snd (fastUploadFile w tid fid fname ct sz) = Inl e"
    and "steps_run (fst (fastUploadFile w tid fid fname ct sz)) = [Presign, Fetch, Transfer]"
    by (simp_all add: steps_transfer)
next
  assume a: "snd (getUploadUrl w tid fname ct sz) = Inr u
      \<and> snd (downloadTelegramFile w fid) = Inr buf
      \<and> snd (uploadToS3 w (uploadUrl (data u)) buf ct) = Inr ()
      \<and> snd (completeUpload w tid (gu_fsObjectId (data u))) = Inl e"
  from fastUploadFile_confirm [of w tid fname ct sz u fid buf] a
  show "snd (fastUploadFile w tid fid fname ct sz) = Inl e"
    and "steps_run (fst (fastUploadFile w tid fid fname ct sz)) = [Presign, Fetch, Transfer, Confirm]"
    by (simp_all add: steps_confirm)
next
  assume a: "snd (fastUploadFile w tid fid fname ct sz) = Inr r"
  from fastUploadFile_ok_steps [OF a] obtain v bytes url where
    s: "snd (getUploadUrl w tid fname ct sz) = Inr v" "snd (downloadTelegramFile w fid) = Inr bytes"
       "fst (fastUploadFile w tid fid fname ct sz) =
        [Backend (GetUploadUrl tid fname ct sz), TelegramGetFile fid, TelegramDownload url,
         S3Put (uploadUrl (data v)) bytes ct, Backend (CompleteUpload tid (gu_fsObjectId (data v)))]"
    by blast
  from s(3) show "steps_run (fst (fastUploadFile w tid fid fname ct sz)) = [Presign, Fetch, Transfer, Confirm]"
    by (simp add: steps_run_def)
  from s show "\<exists>v bytes url.
            snd (getUploadUrl w tid fname ct sz) = Inr v
          \<and> snd (downloadTelegramFile w fid) = Inr bytes
          \<and> fst (fastUploadFile w tid fid fname ct sz) =
              [Backend (GetUploadUrl tid fname ct sz), TelegramGetFile fid, TelegramDownload url,
               S3Put (uploadUrl (data v)) bytes ct,
               Backend (CompleteUpload tid (gu_fsObjectId (data v)))]"
    by blast
qed

lemma lit_eq_Nil [simp]: "lit s = [] \<longleftrightarrow> s = []"
  by (simp add: lit_def)

lemma sample_presign:
  "snd (getUploadUrl (sample_world\<lparr>s3_answer := a\<rparr>) (lit ''42'') (lit ''a.txt'') (lit ''text/plain'') 3)
     = Inr \<lparr>resp_status = lit ''success'', resp_message = lit ''ok'',
            data = \<lparr>gu_fsObjectId = lit ''obj-1'', uploadUrl = lit ''https://s3/put'', s3Key = lit ''k''\<rparr>\<rparr>"
  by (simp add: getUploadUrl_def sample_world_def request_def)

lemma sample_fetch:
  "snd (downloadTelegramFile (sample_world\<lparr>s3_answer := a\<rparr>) (lit ''f1'')) = Inr [1, 2, 3]"
  by (simp add: downloadTelegramFile_def sample_world_def io_simps or_str_def)

lemma sample_transfer_refused:
  "snd (uploadToS3 (sample_world\<lparr>s3_answer := Some \<lparr>put_ok = False, put_status = 403\<rparr>\<rparr>) url buf ct)
     = Inl (CloudStorageApiError (lit ''Failed to upload to S3'') 403 None)"
  by (simp add: uploadToS3_def)

lemma sample_upload_ok:
  "snd (fastUploadFile (sample_world\<lparr>s3_answer := Some \<lparr>put_ok = True, put_status = 200\<rparr>\<rparr>)
          (lit ''42'') (lit ''f1'') (lit ''a.txt'') (lit ''text/plain'') 3)
     = Inr \<lparr>res_shareableLink = lit ''https://s/1'', res_filename = lit ''a.txt'', res_size = 3\<rparr>"
  by (simp add: fastUploadFile_def getUploadUrl_def completeUpload_def uploadToS3_def
      downloadTelegramFile_def sample_world_def request_def io_simps or_str_def)

theorem fastUploadFile_order_witness:
  "snd (fastUploadFile (sample_world\<lparr>s3_answer := Some \<lparr>put_ok = False, put_status = 403\<rparr>\<rparr>)
          (lit ''42'') (lit ''f1'') (lit ''a.txt'') (lit ''text/plain'') 3)
     = Inl (CloudStorageApiError (lit ''Failed to upload to S3'') 403 None)
 \<and> steps_run (fst (fastUploadFile (sample_world\<lparr>s3_answer := Some \<lparr>put_ok = False, put_status = 403\<rparr>\<rparr>)
          (lit ''42'') (lit ''f1'') (lit ''a.txt'') (lit ''text/plain'') 3))
     = [Presign, Fetch, Transfer]
 \<and> steps_run (fst (fastUploadFile (sample_world\<lparr>s3_answer := Some \<lparr>put_ok = True, put_status = 200\<rparr>\<rparr>)
          (lit ''42'') (lit ''f1'') (lit ''a.txt'') (lit ''text/plain'') 3))
     = [Presign, Fetch, Transfer, Confirm]"
proof -
  have refused:
    "snd (fastUploadFile (sample_world\<lparr>s3_answer := Some \<lparr>put_ok = False, put_status = 403\<rparr>\<rparr>)
          (lit ''42'') (lit ''f1'') (lit ''a.txt'') (lit ''text/plain'') 3)
       = Inl (CloudStorageApiError (lit ''Failed to upload to S3'') 403 None)
     \<and> steps_run (fst (fastUploadFile (sample_world\<lparr>s3_answer := Some \<lparr>put_ok = False, put_status = 403\<rparr>\<rparr>)
          (lit ''42'') (lit ''f1'') (lit ''a.txt'') (lit ''text/plain'') 3))
       = [Presign, Fetch, Transfer]"
    using fastUploadFile_order
      [where w = "sample_world\<lparr>s3_answer := Some \<lparr>put_ok = False, put_status = 403\<rparr>\<rparr>"
         and tid = "lit ''42''" and fid = "lit ''f1''" and fname = "lit ''a.txt''"
         and ct = "lit ''text/plain''" and sz = 3
         and u = "\<lparr>resp_status = lit ''success'', resp_message = lit ''ok'',
            data = \<lparr>gu_fsObjectId = lit ''obj-1'', uploadUrl = lit ''https://s3/put'', s3Key = lit ''k''\<rparr>\<rparr>"
         and buf = "[1, 2, 3]"
         and e = "CloudStorageApiError (lit ''Failed to upload to S3'') 403 None"]
      sample_presign [of "Some \<lparr>put_ok = False, put_status = 403\<rparr>"]
      sample_fetch [of "Some \<lparr>put_ok = False, put_status = 403\<rparr>"]
      sample_transfer_refused
    by simp
  have completed:
    "steps_run (fst (fastUploadFile (sample_world\<lparr>s3_answer := Some \<lparr>put_ok = True, put_status = 200\<rparr>\<rparr>)
          (lit ''42'') (lit ''f1'') (lit ''a.txt'') (lit ''text/plain'') 3))
       = [Presign, Fetch, Transfer, Confirm]"
    using fastUploadFile_order
      [where w = "sample_world\<lparr>s3_answer := Some \<lparr>put_ok = True, put_status = 200\<rparr>\<rparr>"
         and tid = "lit ''42''" and fid = "lit ''f1''" and fname = "lit ''a.txt''"
         and ct = "lit ''text/plain''" and sz = 3
         and r = "\<lparr>res_shareableLink = lit ''https://s/1'', res_filename = lit ''a.txt'', res_size = 3\<rparr>"]
      sample_upload_ok
    by simp
  from refused completed show ?thesis by simp
qed

subsection \<open>Deduplication in the handlers\<close>

lemma isProcessed_records: "u \<in> set (snd (isProcessed u s))"
  by (simp add: isProcessed_def set_has_def set_add_def Let_def)

lemma isProcessed_result: "fst (isProcessed u s) = (u \<in> set s)"
  by (simp add: isProcessed_def set_has_def Let_def)

lemma on_document_duplicate:
  "update_id ctx \<in> set s \<Longrightarrow> on_document w ctx d s = (s, [ConsoleLog (duplicate_log (update_id ctx))])"
  by (simp add: on_document_def isProcessed_seen)

lemma on_photo_duplicate:
  "update_id ctx \<in> set s \<Longrightarrow> on_photo w ctx ps s = (s, [ConsoleLog (duplicate_log (update_id ctx))])"
  by (simp add: on_photo_def isProcessed_seen)

lemma on_video_duplicate:
  "update_id ctx \<in> set s \<Longrightarrow> on_video w ctx v s = (s, [ConsoleLog (duplicate_log (update_id ctx))])"
  by (simp add: on_video_def isProcessed_seen)

lemma on_audio_duplicate:
  "update_id ctx \<in> set s \<Longrightarrow> on_audio w ctx a s = (s, [ConsoleLog (duplicate_log (update_id ctx))])"
  by (simp add: on_audio_def isProcessed_seen)

lemma on_voice_duplicate:
  "update_id ctx \<in> set s \<Longrightarrow> on_voice w ctx v s = (s, [ConsoleLog (duplicate_log (update_id ctx))])"
  by (simp add: on_voice_def isProcessed_seen)

lemma upload_duplicate:
  "is_upload ev \<Longrightarrow> update_id ctx \<in> set s \<Longrightarrow>
     handle_update w ctx ev s = (s, [ConsoleLog (duplicate_log (update_id ctx))])"
  by (cases ev)
     (simp_all add: handle_update_def on_document_duplicate on_photo_duplicate on_video_duplicate
        on_audio_duplicate on_voice_duplicate)

lemma upload_state:
  "is_upload ev \<Longrightarrow> fst (handle_update w ctx ev s) = snd (isProcessed (update_id ctx) s)"
  by (cases ev)
     (simp_all add: handle_update_def on_document_def on_photo_def on_video_def on_audio_def
        on_voice_def split: prod.splits bool.splits)

lemma upload_records: "is_upload ev \<Longrightarrow> update_id ctx \<in> set (fst (handle_update w ctx ev s))"
  by (simp add: upload_state isProcessed_records)

text \<open>
  A media upload handler that finds the identifier recorded only logs the duplicate, so
  an upload event handled right after an upload event with the same identifier is
  dropped: no call to the backend and no message to the user.
\<close>

lemma upload_repeat_dropped:
  assumes "is_upload ev" and "is_upload ev'" and "update_id ctx' = update_id ctx"
  shows "handle_update w' ctx' ev' (fst (handle_update w ctx ev s)) =
           (fst (handle_update w ctx ev s), [ConsoleLog (duplicate_log (update_id ctx))])"
proof -
  from assms have "update_id ctx' \<in> set (fst (handle_update w ctx ev s))"
    using upload_records [of ev ctx w s] by simp
  with assms upload_duplicate [of ev' ctx' "fst (handle_update w ctx ev s)" w']
  show ?thesis by simp
qed

text \<open>
  An identifier that an upload handler has just recorded is still recorded after any
  other upload event: it is the newest element, and an eviction removes the 500 oldest of
  at least 1000. So of the uploads A, B, A the second A is dropped.
\<close>

lemma fresh_upload_stays_recorded:
  assumes "distinct s" and "u \<notin> set s"
  shows "u \<in> set (snd (isProcessed v (snd (isProcessed u s))))"
proof -
  define s1 where "s1 = snd (isProcessed u s)"
  from assms have s1: "s1 = s @ [u] \<or> s1 = drop 500 s @ [u]"
    by (simp add: s1_def isProcessed_cases)
  have d1: "distinct s1"
    using assms(1) by (simp add: s1_def isProcessed_invariant_distinct)
  from s1 have newest: "s1 \<noteq> [] \<and> last s1 = u" by auto
  have "u \<in> set (drop 500 s1)" if "\<not> length s1 < 1000"
  proof -
    from that newest have "drop 500 s1 \<noteq> [] \<and> last (drop 500 s1) = u" by simp
    then show ?thesis by (metis last_in_set)
  qed
  moreover from newest have "u \<in> set s1" by (metis last_in_set)
  ultimately show ?thesis
    unfolding s1_def [symmetric] by (auto simp add: isProcessed_cases [OF d1])
qed

lemma upload_A_B_A_dropped:
  assumes "distinct s" and "update_id ctxA \<notin> set s"
    and "is_upload evA" and "is_upload evB" and "is_upload evA'"
  shows "snd (handle_update w3 ctxA evA'
            (fst (handle_update w2 ctxB evB (fst (handle_update w1 ctxA evA s)))))
         = [ConsoleLog (duplicate_log (update_id ctxA))]"
proof -
  have "update_id ctxA \<in> set (fst (handle_update w2 ctxB evB (fst (handle_update w1 ctxA evA s))))"
    using assms fresh_upload_stays_recorded [of s "update_id ctxA" "update_id ctxB"]
    by (simp add: upload_state)
  with assms(5) show ?thesis by (simp add: upload_duplicate)
qed

lemma sample_delete_account:
  "on_confirm_delete_account sample_world sample_ctx =
     [Backend (DeleteAccount (toString 42)),
      AnswerCallbackQuery (Some (lit ''Account deleted'')) False,
      EditMessageText
        (check_mark @ lit '' Account Deleted'' @ nl @ nl @
         lit ''Your account and all associated data have been deleted.'' @ nl @ nl @
         lit ''Thank you for using Cloud Storage Bot.'' @ nl @
         lit ''If you change your mind, use /start to create a new account.'')]"
  by (simp add: on_confirm_delete_account_def sample_ctx_def sample_user_def sample_world_def
      deleteAccount_def request_def io_simps)

text \<open>
  Claim C3 at the delete-account confirmation delivered twice with the same update
  identifier, from the empty set of processed updates: the handler of the button does
  not consult \<open>isProcessed\<close>, so the second delivery calls the backend's delete-account
  operation again, where the claim has the repeated identifier dropped with no backend
  side effect.
\<close>

theorem delete_account_processed_twice:
  "filter is_backend_call
     (snd (handle_update sample_world sample_ctx ConfirmDeleteAccount
        (fst (handle_update sample_world sample_ctx ConfirmDeleteAccount []))))
   = [Backend (DeleteAccount (toString 42))]"
  by (simp add: handle_update_def sample_delete_account)

subsection \<open>Registration and size check in the upload handlers\<close>

lemma ensureUserRegistered_cases:
  "ensureUserRegistered w tid nm =
     (case request (createUser_answer w) of
        Inl e \<Rightarrow>
          ([Backend (CreateUser tid nm), ConsoleError (lit ''Error ensuring user registration:'') e],
           Inr False)
      | Inr r \<Rightarrow> ([Backend (CreateUser tid nm)], Inr True))"
  by (simp add: ensureUserRegistered_def createUser_def io_simps split: sum.splits)

lemma ensureUserRegistered_total: "\<exists>b. snd (ensureUserRegistered w tid nm) = Inr b"
  by (cases "request (createUser_answer w)") (auto simp add: ensureUserRegistered_cases)

lemma upload_flow_ok:
  assumes "snd (fastUploadFile w tid fid fname ct sz) = Inr r"
  shows "upload_flow w chat tid nm fid fname ct sz up ok lbl dflt =
    Reply up NoMarkup # fst (ensureUserRegistered w tid nm) @ fst (fastUploadFile w tid fid fname ct sz)
      @ [ApiEditMessageText chat (status_message_id w) (ok r)]"
proof -
  obtain b where b: "snd (ensureUserRegistered w tid nm) = Inr b"
    using ensureUserRegistered_total by blast
  show ?thesis
    using assms by (simp add: upload_flow_def bind_io_ok [OF b] bind_io_ok [OF assms] emit_def)
qed

lemma upload_flow_failed:
  assumes "snd (fastUploadFile w tid fid fname ct sz) = Inl e"
  shows "upload_flow w chat tid nm fid fname ct sz up ok lbl dflt =
    Reply up NoMarkup # fst (ensureUserRegistered w tid nm) @ fst (fastUploadFile w tid fid fname ct sz)
      @ [ConsoleError lbl e,
         ApiEditMessageText chat (status_message_id w) (upload_failed (error_text dflt e))]"
proof -
  obtain b where b: "snd (ensureUserRegistered w tid nm) = Inr b"
    using ensureUserRegistered_total by blast
  show ?thesis
    using assms by (simp add: upload_flow_def bind_io_ok [OF b] bind_io_fail [OF assms] emit_def)
qed

text \<open>
  Claim C7, as amended. When the registration call fails, \<open>ensureUserRegistered\<close> logs the
  error and returns false; it never rejects. The upload handlers do not look at what it
  returns: after it they run the upload, and the message the user gets at the end is the
  success text when the upload succeeds and the failure text, with the error of the
  upload, when the upload fails.
\<close>

theorem registration_failure_not_surfaced:
  "(request (createUser_answer w) = Inl e \<longrightarrow>
      ensureUserRegistered w tid nm =
        ([Backend (CreateUser tid nm), ConsoleError (lit ''Error ensuring user registration:'') e],
         Inr False))
 \<and> (\<exists>b. snd (ensureUserRegistered w tid nm) = Inr b)
 \<and> (snd (fastUploadFile w tid fid fname ct sz) = Inr r \<longrightarrow>
      upload_flow w chat tid nm fid fname ct sz up ok lbl dflt =
        Reply up NoMarkup # fst (ensureUserRegistered w tid nm)
          @ fst (fastUploadFile w tid fid fname ct sz)
          @ [ApiEditMessageText chat (status_message_id w) (ok r)])
 \<and> (snd (fastUploadFile w tid fid fname ct sz) = Inl e' \<longrightarrow>
      upload_flow w chat tid nm fid fname ct sz up ok lbl dflt =
        Reply up NoMarkup # fst (ensureUserRegistered w tid nm)
          @ fst (fastUploadFile w tid fid fname ct sz)
          @ [ConsoleError lbl e',
             ApiEditMessageText chat (status_message_id w) (upload_failed (error_text dflt e'))])"
  using ensureUserRegistered_total [of w tid nm]
  by (simp add: ensureUserRegistered_cases upload_flow_ok upload_flow_failed)

lemma sample_registration_refused:
  "request (createUser_answer
     (sample_world\<lparr>createUser_answer := Some (HttpNotOk 500 (Some sample_envelope))\<rparr>))
   = Inl (CloudStorageApiError (lit ''User not found'') 500 (Some sample_envelope))"
  by (simp add: request_not_ok sample_envelope_def)

theorem registration_failure_not_surfaced_witness:
  "ensureUserRegistered
     (sample_world\<lparr>createUser_answer := Some (HttpNotOk 500 (Some sample_envelope))\<rparr>)
     (lit ''42'') None =
   ([Backend (CreateUser (lit ''42'') None),
     ConsoleError (lit ''Error ensuring user registration:'')
       (CloudStorageApiError (lit ''User not found'') 500 (Some sample_envelope))],
    Inr False)"
  using registration_failure_not_surfaced
    [where w = "sample_world\<lparr>createUser_answer := Some (HttpNotOk 500 (Some sample_envelope))\<rparr>"
       and e = "CloudStorageApiError (lit ''User not found'') 500 (Some sample_envelope)"
       and tid = "lit ''42''" and nm = None]
    sample_registration_refused
  by simp

text \<open>
  Claim C7 as stated fails in its second half: with the registration call refused and the
  upload itself succeeding, the document handler shows the user the uploading text and
  then the success text; the registration failure only reaches the console.
\<close>

theorem registration_failure_counterexample:
  "snd (on_document
     (sample_world\<lparr>createUser_answer := Some (HttpNotOk 500 (Some sample_envelope))\<rparr>)
     sample_ctx sample_document []) =
   [Reply (outbox_tray @ lit '' Uploading '' @ dquote @ lit ''a.txt'' @ dquote @ lit ''...'' @ nl @
           size_line 3) NoMarkup,
    Backend (CreateUser (toString 42) (Some (lit ''Ada''))),
    ConsoleError (lit ''Error ensuring user registration:'')
      (CloudStorageApiError (lit ''User not found'') 500 (Some sample_envelope)),
    Backend (GetUploadUrl (toString 42) (lit ''a.txt'') (lit ''text/plain'') 3),
    TelegramGetFile (lit ''f1''),
    TelegramDownload (lit ''https://api.telegram.org/file/bot'' @ lit ''T'' @ lit ''/'' @ lit ''docs/a.txt''),
    S3Put (lit ''https://s3/put'') [1, 2, 3] (lit ''text/plain''),
    Backend (CompleteUpload (toString 42) (lit ''obj-1'')),
    ApiEditMessageText 5 7
      (check_mark @ lit '' Upload complete!'' @ nl @ nl @
       page_facing_up @ lit '' File: '' @ lit ''a.txt'' @ nl @
       package @ lit '' Size: '' @ formatFileSize 3 @ nl @ nl @
       link_symbol @ lit '' Shareable Link:'' @ nl @ lit ''https://s/1'')]"
  by (simp add: on_document_def isProcessed_fresh sample_ctx_def sample_user_def sample_document_def
      or_str_def or_number_def getUserDisplayName_def upload_flow_def ensureUserRegistered_cases
      fastUploadFile_def getUploadUrl_def completeUpload_def uploadToS3_def downloadTelegramFile_def
      sample_world_def request_def io_simps sample_envelope_def link_lines_def Let_def)

text \<open>
  Claim C2 at a voice message of 20 MiB and one byte, in a world where Telegram refuses
  \<open>getFile\<close>: the voice handler has no size check, so it sends the uploading text,
  registers the user, reserves an upload URL at the backend and asks Telegram for the
  file before it reports the failure.
\<close>

theorem voice_size_unchecked:
  "snd (on_voice (sample_world\<lparr>getFile_answer := None\<rparr>) sample_ctx oversized_voice []) =
   [Reply (outbox_tray @ lit '' Uploading voice message...'' @ nl @ size_line 20971521) NoMarkup,
    Backend (CreateUser (toString 42) (Some (lit ''Ada''))),
    Backend (GetUploadUrl (toString 42) (lit ''voice_'' @ digitsOf 1700000000000 @ lit ''.ogg'')
               (lit ''audio/ogg'') 20971521),
    TelegramGetFile (lit ''v1''),
    ConsoleError (lit ''Error uploading voice:'') TelegramApiError,
    ApiEditMessageText 5 7 (upload_failed (lit ''Failed to upload voice message.''))]"
  by (simp add: on_voice_def isProcessed_fresh sample_ctx_def sample_user_def oversized_voice_def
      or_str_def or_number_def getUserDisplayName_def upload_flow_def ensureUserRegistered_cases
      fastUploadFile_def getUploadUrl_def downloadTelegramFile_def
      sample_world_def request_def io_simps error_text_def Let_def)

text \<open>
  The document, video and audio handlers do check the size: above 20 MiB the only effect
  is the rejection text (or the duplicate log, or the unidentified-sender text).
\<close>

lemma document_size_guard:
  assumes "doc_file_size d = Some n" and "n > 20 * 1024 * 1024"
  shows "filter is_network_call (snd (on_document w ctx d s)) = []"
    and "update_id ctx \<notin> set s \<Longrightarrow> from_user ctx = Some u \<Longrightarrow>
           snd (on_document w ctx d s) = [Reply file_too_large NoMarkup]"
  using assms
  by (auto simp add: on_document_def or_number_def isProcessed_def set_has_def Let_def
      split: option.splits)

lemma video_size_guard:
  assumes "video_file_size v = Some n" and "n > 20 * 1024 * 1024"
  shows "filter is_network_call (snd (on_video w ctx v s)) = []"
    and "update_id ctx \<notin> set s \<Longrightarrow> from_user ctx = Some u \<Longrightarrow>
           snd (on_video w ctx v s) = [Reply video_too_large NoMarkup]"
  using assms
  by (auto simp add: on_video_def or_number_def isProcessed_def set_has_def Let_def
      split: option.splits)

lemma audio_size_guard:
  assumes "audio_file_size a = Some n" and "n > 20 * 1024 * 1024"
  shows "filter is_network_call (snd (on_audio w ctx a s)) = []"
    and "update_id ctx \<notin> set s \<Longrightarrow> from_user ctx = Some u \<Longrightarrow>
           snd (on_audio w ctx a s) = [Reply audio_too_large NoMarkup]"
  using assms
  by (auto simp add: on_audio_def or_number_def isProcessed_def set_has_def Let_def
      split: option.splits)

subsection \<open>Phone verification\<close>

lemma contact_check:
  "(map_option toString uid \<noteq> Some (toString i)) = (uid \<noteq> Some i)"
  by (cases uid) (simp_all add: toString_inj)

lemma on_contact_rejected:
  assumes "from_user ctx = Some u" and "contact_user_id c \<noteq> Some (tg_id u)"
  shows "on_contact w ctx c = [Reply contact_rejected RemoveKeyboard]"
  using assms unfolding on_contact_def Let_def contact_check by simp

lemma on_contact_unidentified:
  "from_user ctx = None \<Longrightarrow> on_contact w ctx c = [Reply could_not_identify NoMarkup]"
  by (simp add: on_contact_def)

lemma on_contact_accepted:
  assumes "from_user ctx = Some u" and "contact_user_id c = Some (tg_id u)"
  shows "\<exists>rest. on_contact w ctx c =
      Backend (UpdatePhone (toString (tg_id u))
        (if take 1 (phone_number c) = lit ''+'' then phone_number c else lit ''+'' @ phone_number c))
      # rest \<and> filter is_backend_call rest = []"
  using assms unfolding on_contact_def Let_def contact_check
  by (cases "request (updatePhone_answer w)") (simp_all add: updatePhone_def io_simps)

text \<open>
  Claim C6. For a contact shared by an identified sender: when the user id in the
  contact is missing or differs from the sender's id, the handler only replies with the
  rejection text; when it equals the sender's id, the handler calls the phone update
  once, for the sender, with the number prefixed by \<open>+\<close>. A phone update appears in the
  trace exactly when the sender is identified and the contact carries the sender's id.
\<close>

theorem contact_must_be_own:
  "(from_user ctx = Some u \<and> contact_user_id c \<noteq> Some (tg_id u) \<longrightarrow>
      on_contact w ctx c = [Reply contact_rejected RemoveKeyboard])
 \<and> (from_user ctx = Some u \<and> contact_user_id c = Some (tg_id u) \<longrightarrow>
      filter is_backend_call (on_contact w ctx c) =
        [Backend (UpdatePhone (toString (tg_id u))
           (if take 1 (phone_number c) = lit ''+'' then phone_number c
            else lit ''+'' @ phone_number c))])
 \<and> ((\<exists>t p. Backend (UpdatePhone t p) \<in> set (on_contact w ctx c))
      = (\<exists>v. from_user ctx = Some v \<and> contact_user_id c = Some (tg_id v)))"
proof (intro conjI impI)
  assume "from_user ctx = Some u \<and> contact_user_id c \<noteq> Some (tg_id u)"
  then show "on_contact w ctx c = [Reply contact_rejected RemoveKeyboard]"
    by (simp add: on_contact_rejected)
next
  assume a: "from_user ctx = Some u \<and> contact_user_id c = Some (tg_id u)"
  with on_contact_accepted [of ctx u c w]
  show "filter is_backend_call (on_contact w ctx c) =
        [Backend (UpdatePhone (toString (tg_id u))
           (if take 1 (phone_number c) = lit ''+'' then phone_number c
            else lit ''+'' @ phone_number c))]"
    by auto
next
  show "(\<exists>t p. Backend (UpdatePhone t p) \<in> set (on_contact w ctx c))
      = (\<exists>v. from_user ctx = Some v \<and> contact_user_id c = Some (tg_id v))"
  proof (cases "from_user ctx")
    case None
    then show ?thesis by (simp add: on_contact_unidentified)
  next
    case (Some v)
    show ?thesis
    proof (cases "contact_user_id c = Some (tg_id v)")
      case True
      with Some on_contact_accepted [of ctx v c w] obtain p rest where
        "on_contact w ctx c = Backend (UpdatePhone (toString (tg_id v)) p) # rest" by blast
      then have "Backend (UpdatePhone (toString (tg_id v)) p) \<in> set (on_contact w ctx c)" by simp
      with Some True show ?thesis by blast
    next
      case False
      with Some on_contact_rejected [of ctx v c w] show ?thesis by simp
    qed
  qed
qed

lemma sample_phone_prefix: "take 1 (lit ''100'') \<noteq> lit ''+''"
  by (simp add: lit_def)

theorem contact_must_be_own_witness:
  "on_contact sample_world sample_ctx \<lparr>phone_number = lit ''100'', contact_user_id = Some 43\<rparr>
     = [Reply contact_rejected RemoveKeyboard]
 \<and> on_contact sample_world sample_ctx \<lparr>phone_number = lit ''100'', contact_user_id = None\<rparr>
     = [Reply contact_rejected RemoveKeyboard]
 \<and> filter is_backend_call
      (on_contact sample_world sample_ctx \<lparr>phone_number = lit ''100'', contact_user_id = Some 42\<rparr>)
     = [Backend (UpdatePhone (toString 42) (lit ''+'' @ lit ''100''))]"
proof -
  have sender: "from_user sample_ctx = Some sample_user" and own: "tg_id sample_user = 42"
    by (simp_all add: sample_ctx_def sample_user_def)
  have other:
    "on_contact sample_world sample_ctx \<lparr>phone_number = lit ''100'', contact_user_id = Some 43\<rparr>
       = [Reply contact_rejected RemoveKeyboard]"
    using contact_must_be_own
      [where ctx = sample_ctx and u = sample_user and w = sample_world
         and c = "\<lparr>phone_number = lit ''100'', contact_user_id = Some 43\<rparr>"]
      sender own
    by simp
  have absent:
    "on_contact sample_world sample_ctx \<lparr>phone_number = lit ''100'', contact_user_id = None\<rparr>
       = [Reply contact_rejected RemoveKeyboard]"
    using contact_must_be_own
      [where ctx = sample_ctx and u = sample_user and w = sample_world
         and c = "\<lparr>phone_number = lit ''100'', contact_user_id = None\<rparr>"]
      sender
    by simp
  have same:
    "filter is_backend_call
      (on_contact sample_world sample_ctx \<lparr>phone_number = lit ''100'', contact_user_id = Some 42\<rparr>)
     = [Backend (UpdatePhone (toString 42) (lit ''+'' @ lit ''100''))]"
    using contact_must_be_own
      [where ctx = sample_ctx and u = sample_user and w = sample_world
         and c = "\<lparr>phone_number = lit ''100'', contact_user_id = Some 42\<rparr>"]
      sender own sample_phone_prefix
    by simp
  from other absent same show ?thesis by simp
qed

subsection \<open>Delete-link selection\<close>

lemma kb_text_last_row: "kb_text (rows @ [r]) label cb = rows @ [r @ [(label, cb)]]"
  by (simp add: kb_text_def)

lemma delete_rows:
  "foldl (\<lambda>kb file. kb_row (kb_text kb (fst (delete_button file)) (snd (delete_button file))))
     (rows @ [[]]) fs
   = rows @ map (\<lambda>f. [delete_button f]) fs @ [[]]"
proof (induction fs arbitrary: rows)
  case Nil
  show ?case by simp
next
  case (Cons f fs)
  have "kb_row (kb_text (rows @ [[]]) (fst (delete_button f)) (snd (delete_button f)))
          = (rows @ [[delete_button f]]) @ [[]]"
    by (simp add: kb_text_last_row kb_row_def)
  then show ?case using Cons.IH [of "rows @ [[delete_button f]]"] by simp
qed

lemma delete_keyboard_rows:
  "delete_keyboard fs = map (\<lambda>f. [delete_button f]) (take 10 fs) @ [[cancel_button]]"
proof -
  have "foldl (\<lambda>kb file. kb_row (kb_text kb (fst (delete_button file)) (snd (delete_button file))))
          new_keyboard (take 10 fs)
        = map (\<lambda>f. [delete_button f]) (take 10 fs) @ [[]]"
    using delete_rows [of "[]" "take 10 fs"] by (simp add: new_keyboard_def)
  then show ?thesis
    by (simp add: delete_keyboard_def kb_text_last_row)
qed

lemma delete_keyboard_buttons:
  "concat (delete_keyboard fs) = map delete_button (take 10 fs) @ [cancel_button]"
  by (simp add: delete_keyboard_rows concat_map_singleton)

lemma on_delete_link_command_lists:
  assumes "from_user ctx = Some u" and "request (listSharedFiles_answer w) = Inr r"
    and "files (data r) \<noteq> []"
  shows "on_delete_link_command w ctx =
    [Backend (ListSharedFiles (toString (tg_id u))),
     Reply (delete_text (files (data r))) (Inline (delete_keyboard (files (data r))))]"
  using assms by (simp add: on_delete_link_command_def listSharedFiles_def io_simps Let_def)

text \<open>
  Claim C10. The keyboard of the \<open>/delete_link\<close> reply has one row with one delete button
  for each of the first ten files and a last row with the cancel button: at most ten
  delete buttons, whatever the number of files, each bound to the object id of one of
  the first ten files. The label of a button is the file name, cut to its first 22 code
  units followed by \<open>...\<close> when the name is longer than 25. The text numbers the first
  ten files and, when there are more, ends with the count of the remaining ones. With an
  identified sender and a non-empty list from the backend the handler sends exactly this
  text and keyboard.
\<close>

theorem delete_link_selection_bounded:
  "delete_keyboard fs = map (\<lambda>f. [delete_button f]) (take 10 fs) @ [[cancel_button]]
 \<and> concat (delete_keyboard fs) = map delete_button (take 10 fs) @ [cancel_button]
 \<and> length (concat (delete_keyboard fs)) = min 10 (length fs) + 1
 \<and> length (concat (delete_keyboard fs)) \<le> 11
 \<and> (\<forall>b \<in> set (concat (delete_keyboard fs)).
       b = cancel_button \<or> (\<exists>f \<in> set (take 10 fs). b = delete_button f))
 \<and> snd (delete_button f) = lit ''delete_link:'' @ sf_fsObjectId f
 \<and> (length (sf_filename f) > 25 \<longrightarrow>
       fst (delete_button f) = wastebasket @ lit '' '' @ take 22 (sf_filename f) @ lit ''...'')
 \<and> (length (sf_filename f) \<le> 25 \<longrightarrow>
       fst (delete_button f) = wastebasket @ lit '' '' @ sf_filename f)
 \<and> delete_text fs =
       link_symbol @ lit '' Your Shared Files'' @ nl @ nl @
       lit ''Select a file to delete its shareable link:'' @ nl @ nl @
       join nl (map file_line (enumerate 0 (take 10 fs))) @
       (if length fs > 10
        then nl @ nl @ lit ''...and '' @ digitsOf (length fs - 10) @ lit '' more''
        else [])
 \<and> length (map file_line (enumerate 0 (take 10 fs))) = min 10 (length fs)
 \<and> (from_user ctx = Some u \<and> request (listSharedFiles_answer w) = Inr r
       \<and> files (data r) \<noteq> [] \<longrightarrow>
       on_delete_link_command w ctx =
         [Backend (ListSharedFiles (toString (tg_id u))),
          Reply (delete_text (files (data r))) (Inline (delete_keyboard (files (data r))))])"
proof (intro conjI impI ballI)
  show "delete_keyboard fs = map (\<lambda>f. [delete_button f]) (take 10 fs) @ [[cancel_button]]"
    by (rule delete_keyboard_rows)
  show "concat (delete_keyboard fs) = map delete_button (take 10 fs) @ [cancel_button]"
    by (rule delete_keyboard_buttons)
  show "length (concat (delete_keyboard fs)) = min 10 (length fs) + 1"
    by (simp add: delete_keyboard_buttons min.commute)
  show "length (concat (delete_keyboard fs)) \<le> 11"
    by (simp add: delete_keyboard_buttons)
  show "snd (delete_button f) = lit ''delete_link:'' @ sf_fsObjectId f"
    by (simp add: delete_button_def)
  show "delete_text fs =
       link_symbol @ lit '' Your Shared Files'' @ nl @ nl @
       lit ''Select a file to delete its shareable link:'' @ nl @ nl @
       join nl (map file_line (enumerate 0 (take 10 fs))) @
       (if length fs > 10
        then nl @ nl @ lit ''...and '' @ digitsOf (length fs - 10) @ lit '' more''
        else [])"
    by (simp add: delete_text_def)
  show "length (map file_line (enumerate 0 (take 10 fs))) = min 10 (length fs)"
    by (simp add: min.commute)
next
  fix b
  assume "b \<in> set (concat (delete_keyboard fs))"
  then show "b = cancel_button \<or> (\<exists>f \<in> set (take 10 fs). b = delete_button f)"
    by (auto simp add: delete_keyboard_buttons)
next
  assume "25 < length (sf_filename f)"
  then show "fst (delete_button f) = wastebasket @ lit '' '' @ take 22 (sf_filename f) @ lit ''...''"
    by (simp add: delete_button_def displayName_def)
next
  assume "length (sf_filename f) \<le> 25"
  then show "fst (delete_button f) = wastebasket @ lit '' '' @ sf_filename f"
    by (simp add: delete_button_def displayName_def)
next
  assume "from_user ctx = Some u \<and> request (listSharedFiles_answer w) = Inr r
       \<and> files (data r) \<noteq> []"
  then show "on_delete_link_command w ctx =
         [Backend (ListSharedFiles (toString (tg_id u))),
          Reply (delete_text (files (data r))) (Inline (delete_keyboard (files (data r))))]"
    by (simp add: on_delete_link_command_lists)
qed

lemma long_name_length: "length (sf_filename long_named_file) = 34"
  by (simp add: long_named_file_def lit_def)

lemma long_name_prefix: "take 22 (sf_filename long_named_file) = lit ''quarterly-report-final''"
  by (simp add: long_named_file_def lit_def)

lemma sample_listing:
  "request (listSharedFiles_answer
     (sample_world\<lparr>listSharedFiles_answer :=
        Some (HttpOk (Some \<lparr>resp_status = lit ''success'', resp_message = lit ''ok'',
          data = \<lparr>files = replicate 12 long_named_file\<rparr>\<rparr>))\<rparr>))
   = Inr \<lparr>resp_status = lit ''success'', resp_message = lit ''ok'',
          data = \<lparr>files = replicate 12 long_named_file\<rparr>\<rparr>"
  by (simp add: request_def)

theorem delete_link_selection_bounded_witness:
  "fst (delete_button long_named_file) = wastebasket @ lit '' '' @ lit ''quarterly-report-final'' @ lit ''...''
 \<and> length (concat (delete_keyboard (replicate 12 long_named_file))) = 11
 \<and> on_delete_link_command
      (sample_world\<lparr>listSharedFiles_answer :=
        Some (HttpOk (Some \<lparr>resp_status = lit ''success'', resp_message = lit ''ok'',
          data = \<lparr>files = replicate 12 long_named_file\<rparr>\<rparr>))\<rparr>)
      sample_ctx =
    [Backend (ListSharedFiles (toString 42)),
     Reply (delete_text (replicate 12 long_named_file))
       (Inline (map (\<lambda>f. [delete_button f]) (replicate 10 long_named_file) @ [[cancel_button]]))]"
proof -
  have sender: "from_user sample_ctx = Some sample_user" and own: "tg_id sample_user = 42"
    by (simp_all add: sample_ctx_def sample_user_def)
  have label:
    "fst (delete_button long_named_file) =
       wastebasket @ lit '' '' @ lit ''quarterly-report-final'' @ lit ''...''"
    using delete_link_selection_bounded [where f = long_named_file]
    by (simp add: long_name_length long_name_prefix)
  have count: "length (concat (delete_keyboard (replicate 12 long_named_file))) = 11"
    using delete_link_selection_bounded [where fs = "replicate 12 long_named_file"] by simp
  have listing:
    "on_delete_link_command
      (sample_world\<lparr>listSharedFiles_answer :=
        Some (HttpOk (Some \<lparr>resp_status = lit ''success'', resp_message = lit ''ok'',
          data = \<lparr>files = replicate 12 long_named_file\<rparr>\<rparr>))\<rparr>)
      sample_ctx =
    [Backend (ListSharedFiles (toString 42)),
     Reply (delete_text (replicate 12 long_named_file))
       (Inline (map (\<lambda>f. [delete_button f]) (replicate 10 long_named_file) @ [[cancel_button]]))]"
    using delete_link_selection_bounded
      [where ctx = sample_ctx and u = sample_user
         and w = "sample_world\<lparr>listSharedFiles_answer :=
        Some (HttpOk (Some \<lparr>resp_status = lit ''success'', resp_message = lit ''ok'',
          data = \<lparr>files = replicate 12 long_named_file\<rparr>\<rparr>))\<rparr>"
         and r = "\<lparr>resp_status = lit ''success'', resp_message = lit ''ok'',
          data = \<lparr>files = replicate 12 long_named_file\<rparr>\<rparr>"
         and fs = "replicate 12 long_named_file"]
      sender own sample_listing
    by simp
  from label count listing show ?thesis by simp
qed

end
